theory Spec2Isabelle
  imports Complex_Main "HOL-Library.Multiset"
begin

section \<open>Domain model (package domain)\<close>

text \<open>
  Amounts are \<^verbatim>\<open>float64\<close> in the source. They are kept abstract here: a type
  variable \<open>'f\<close> on which only the operations the code applies are used (\<open>+\<close> and \<open>*\<close>
  of the syntactic classes, with no law assumed), and a parameter \<open>conv\<close> that stands
  for the conversion \<^verbatim>\<open>float64(n)\<close> of an integer. The constants \<^verbatim>\<open>5.00\<close> and the
  zero value of a \<^verbatim>\<open>float64\<close> variable are \<open>conv 5\<close> and \<open>conv 0\<close>. Whatever is proved
  holds for every interpretation of these operations, the IEEE one included; equality
  is identity of values. Quantities and row ids are Go \<^verbatim>\<open>int\<close>s on which the code does
  no arithmetic; instants (\<^verbatim>\<open>time.Time\<close>) are integers, the zero instant being 0.
\<close>

record 'f OrderItem =
  ProductID :: string
  ProductName :: string
  Quantity :: int
  Price :: 'f
  Subtotal_item :: 'f

record 'f Order =
  ID :: string
  UserID :: string
  Status :: string
  Items :: "'f OrderItem list"
  Subtotal :: 'f
  Shipping :: 'f
  Total :: 'f
  CreatedAt :: int

record 'f CreateOrderRequest =
  UserID_req :: string
  Items_req :: "'f OrderItem list"

subsection \<open>Errors\<close>

text \<open>
  What the database driver reports is a \<open>pgx_error\<close>. The sentinels of
  \<^verbatim>\<open>domain/errors.go\<close> and of the logic package are constructors of \<open>error\<close>;
  \<^verbatim>\<open>errors.New\<close> elsewhere is \<open>ErrorString\<close> and \<^verbatim>\<open>fmt.Errorf("...: %w", err)\<close> is
  \<open>Wrapped\<close>. \<^verbatim>\<open>ErrInvalidOrder\<close> is declared in the source as another name of
  \<^verbatim>\<open>ErrInvalidOrderState\<close>.
\<close>

datatype pgx_error = ErrNoRows | ErrTxClosed | PgError string

datatype error =
    ErrNotFound
  | ErrInvalidInput
  | ErrConflict
  | ErrOrderNotFound
  | ErrInvalidOrderState
  | ErrPaymentFailed
  | ErrUnauthorized
  | Pgx pgx_error
  | ErrorString string
  | Wrapped string error

definition ErrInvalidOrder :: error where
  "ErrInvalidOrder = ErrInvalidOrderState"

fun errors_Is :: "error \<Rightarrow> error \<Rightarrow> bool" where
  "errors_Is (Wrapped c e) target = (Wrapped c e = target \<or> errors_Is e target)"
| "errors_Is e target = (e = target)"

fun pgx_message :: "pgx_error \<Rightarrow> string" where
  "pgx_message ErrNoRows = ''no rows in result set''"
| "pgx_message ErrTxClosed = ''tx is closed''"
| "pgx_message (PgError m) = m"

fun Error :: "error \<Rightarrow> string" where
  "Error ErrNotFound = ''resource not found''"
| "Error ErrInvalidInput = ''invalid input''"
| "Error ErrConflict = ''resource conflict''"
| "Error ErrOrderNotFound = ''order not found''"
| "Error ErrInvalidOrderState = ''invalid order state''"
| "Error ErrPaymentFailed = ''payment failed''"
| "Error ErrUnauthorized = ''unauthorized access''"
| "Error (Pgx e) = pgx_message e"
| "Error (ErrorString m) = m"
| "Error (Wrapped c e) = c @ '': '' @ Error e"

subsection \<open>strconv.Itoa\<close>

fun digits :: "nat \<Rightarrow> string" where
  "digits n = (if n < 10 then [''0123456789'' ! n]
               else digits (n div 10) @ [''0123456789'' ! (n mod 10)])"

declare digits.simps [simp del]

definition Itoa :: "int \<Rightarrow> string" where
  "Itoa i = (if i < 0 then CHR ''-'' # digits (nat (- i)) else digits (nat i))"

section \<open>The database behind the connection pool\<close>

text \<open>
  The two tables hold the committed rows. \<open>orders_id_seq\<close> is the sequence behind
  the \<^verbatim>\<open>id\<close> column and \<open>now\<close> the clock read by \<^verbatim>\<open>time.Now()\<close>. Any call to the
  driver may fail: \<open>faults\<close> is the script of the environment, one entry consumed by
  each call (\<open>None\<close>, or no entry left: the call goes through; \<open>Some e\<close>: it fails
  with \<open>e\<close>). \<open>tx_log\<close> records, in order, each transaction begun, committed and
  rolled back.
\<close>

record 'f order_row =
  id_col :: int
  user_id_col :: string
  status_col :: string
  subtotal_col :: 'f
  shipping_col :: 'f
  total_col :: 'f
  created_at_col :: int

record 'f order_item_row =
  order_id_col :: int
  product_id_col :: string
  product_name_col :: string
  quantity_col :: int
  price_col :: 'f
  item_subtotal_col :: 'f

datatype tx_event = TxBegin | TxCommit | TxRollback

record 'f pgxpool =
  orders :: "'f order_row list"
  order_items :: "'f order_item_row list"
  orders_id_seq :: int
  now :: int
  faults :: "pgx_error option list"
  tx_log :: "tx_event list"

definition next_fault :: "'f pgxpool \<Rightarrow> pgx_error option \<times> 'f pgxpool" where
  "next_fault p = (case faults p of
       [] \<Rightarrow> (None, p)
     | f # fs \<Rightarrow> (f, p\<lparr>faults := fs\<rparr>))"

subsection \<open>Transactions (transaction manager and PostgresTransaction)\<close>

text \<open>
  A \<^verbatim>\<open>domain.Transaction\<close> is an interface value. The repository has two
  implementations of it: \<^verbatim>\<open>PostgresTransaction\<close>, which holds the rows written and
  not yet committed, and the \<^verbatim>\<open>MockTransaction\<close> of the service test with its two
  flags \<^verbatim>\<open>commitCalled\<close> and \<^verbatim>\<open>rollbackCalled\<close>.
\<close>

record 'f pgx_tx =
  tx_orders :: "'f order_row list"
  tx_order_items :: "'f order_item_row list"
  tx_closed :: bool

datatype 'f Transaction =
    PostgresTransaction "'f pgx_tx"
  | MockTransaction bool bool

definition Begin :: "'f pgxpool \<Rightarrow> (error + 'f Transaction) \<times> 'f pgxpool" where
  "Begin p = (case next_fault p of
       (Some e, p1) \<Rightarrow> (Inl (Pgx e), p1)
     | (None, p1) \<Rightarrow>
         (Inr (PostgresTransaction \<lparr>tx_orders = [], tx_order_items = [], tx_closed = False\<rparr>),
          p1\<lparr>tx_log := tx_log p1 @ [TxBegin]\<rparr>))"

text \<open>
  A commit that goes through appends the pending rows to the tables. A commit that
  fails applies nothing; the driver marks the transaction closed all the same, so
  the rollback that follows finds it closed.
\<close>

fun Commit :: "'f pgxpool \<Rightarrow> 'f Transaction \<Rightarrow> error option \<times> 'f Transaction \<times> 'f pgxpool" where
  "Commit p (MockTransaction c r) = (None, MockTransaction True r, p)"
| "Commit p (PostgresTransaction t) =
     (if tx_closed t then (Some (Pgx ErrTxClosed), PostgresTransaction t, p)
      else (case next_fault p of
          (Some e, p1) \<Rightarrow> (Some (Pgx e), PostgresTransaction (t\<lparr>tx_closed := True\<rparr>), p1)
        | (None, p1) \<Rightarrow>
            (None, PostgresTransaction (t\<lparr>tx_closed := True\<rparr>),
             p1\<lparr>orders := orders p1 @ tx_orders t,
                order_items := order_items p1 @ tx_order_items t,
                tx_log := tx_log p1 @ [TxCommit]\<rparr>)))"

text \<open>
  A rollback drops the pending rows. On a transaction already closed it reports
  \<^verbatim>\<open>ErrTxClosed\<close> and changes nothing; the service calls it deferred and ignores
  what it returns.
\<close>

fun Rollback :: "'f pgxpool \<Rightarrow> 'f Transaction \<Rightarrow> error option \<times> 'f Transaction \<times> 'f pgxpool" where
  "Rollback p (MockTransaction c r) = (None, MockTransaction c True, p)"
| "Rollback p (PostgresTransaction t) =
     (if tx_closed t then (Some (Pgx ErrTxClosed), PostgresTransaction t, p)
      else (None,
            PostgresTransaction (t\<lparr>tx_orders := [], tx_order_items := [], tx_closed := True\<rparr>),
            p\<lparr>tx_log := tx_log p @ [TxRollback]\<rparr>))"

text \<open>
  The two statements run inside a transaction: the insert of the order row, which
  returns the id drawn from the sequence, and the insert of one item row. The rows
  stay pending in the transaction. The sequence is not transactional: an id drawn
  is not given back by a rollback.
\<close>

definition tx_insert_order ::
  "'f pgxpool \<Rightarrow> 'f pgx_tx \<Rightarrow> 'f Order \<Rightarrow> (pgx_error + int) \<times> 'f pgx_tx \<times> 'f pgxpool" where
  "tx_insert_order p t order =
     (if tx_closed t then (Inl ErrTxClosed, t, p)
      else (case next_fault p of
          (Some e, p1) \<Rightarrow> (Inl e, t, p1)
        | (None, p1) \<Rightarrow>
            (let oid = orders_id_seq p1 + 1;
                 row = \<lparr>id_col = oid, user_id_col = UserID order, status_col = Status order,
                        subtotal_col = Subtotal order, shipping_col = Shipping order,
                        total_col = Total order, created_at_col = now p1\<rparr>
             in (Inr oid, t\<lparr>tx_orders := tx_orders t @ [row]\<rparr>, p1\<lparr>orders_id_seq := oid\<rparr>))))"

definition tx_insert_item ::
  "'f pgxpool \<Rightarrow> 'f pgx_tx \<Rightarrow> int \<Rightarrow> 'f OrderItem \<Rightarrow> pgx_error option \<times> 'f pgx_tx \<times> 'f pgxpool" where
  "tx_insert_item p t oid item =
     (if tx_closed t then (Some ErrTxClosed, t, p)
      else (case next_fault p of
          (Some e, p1) \<Rightarrow> (Some e, t, p1)
        | (None, p1) \<Rightarrow>
            (None,
             t\<lparr>tx_order_items := tx_order_items t @
                  [\<lparr>order_id_col = oid, product_id_col = ProductID item,
                    product_name_col = ProductName item, quantity_col = Quantity item,
                    price_col = Price item, item_subtotal_col = Subtotal_item item\<rparr>]\<rparr>,
             p1)))"

section \<open>Repository: CreateWithTx\<close>

text \<open>
  The loop over \<^verbatim>\<open>order.Items\<close> stops at the first insert that fails. The order is
  passed by pointer: its \<^verbatim>\<open>ID\<close> is assigned as soon as the order row is in, so the
  function returns the order along with the error.
\<close>

fun insert_items ::
  "'f pgxpool \<Rightarrow> 'f pgx_tx \<Rightarrow> int \<Rightarrow> 'f OrderItem list \<Rightarrow> error option \<times> 'f pgx_tx \<times> 'f pgxpool" where
  "insert_items p t oid [] = (None, t, p)"
| "insert_items p t oid (item # rest) =
     (case tx_insert_item p t oid item of
        (Some e, t1, p1) \<Rightarrow> (Some (Pgx e), t1, p1)
      | (None, t1, p1) \<Rightarrow> insert_items p1 t1 oid rest)"

fun CreateWithTx ::
  "'f pgxpool \<Rightarrow> 'f Transaction \<Rightarrow> 'f Order \<Rightarrow>
     error option \<times> 'f Order \<times> 'f Transaction \<times> 'f pgxpool" where
  "CreateWithTx p (MockTransaction c r) order =
     (Some (ErrorString ''invalid transaction type''), order, MockTransaction c r, p)"
| "CreateWithTx p (PostgresTransaction t) order =
     (case tx_insert_order p t order of
        (Inl e, t1, p1) \<Rightarrow> (Some (Pgx e), order, PostgresTransaction t1, p1)
      | (Inr oid, t1, p1) \<Rightarrow>
          (let order1 = order\<lparr>ID := Itoa oid\<rparr> in
           (case insert_items p1 t1 oid (Items order1) of
              (err, t2, p2) \<Rightarrow> (err, order1, PostgresTransaction t2, p2))))"

section \<open>Service: CreateOrder\<close>

text \<open>
  The service reaches its repository and its transaction manager through the
  interfaces of package domain; here they are the Postgres implementations, both on
  the same pool. The enrichment loop writes \<^verbatim>\<open>enrichedItems[i]\<close> into a slice
  allocated with the length of the request's items and adds each item subtotal to
  \<^verbatim>\<open>subtotal\<close>. The order returned is the one handed to the repository, with the id
  the repository assigned; its \<^verbatim>\<open>CreatedAt\<close> is never set and stays the zero instant.
\<close>

definition zero_OrderItem :: "(int \<Rightarrow> 'f) \<Rightarrow> 'f OrderItem" where
  "zero_OrderItem conv =
     \<lparr>ProductID = [], ProductName = [], Quantity = 0, Price = conv 0, Subtotal_item = conv 0\<rparr>"

fun enrich_loop ::
  "(int \<Rightarrow> 'f::{plus,times}) \<Rightarrow> nat \<Rightarrow> 'f OrderItem list \<Rightarrow> 'f OrderItem list \<Rightarrow> 'f \<Rightarrow>
     'f OrderItem list \<times> 'f" where
  "enrich_loop conv i [] enrichedItems subtotal = (enrichedItems, subtotal)"
| "enrich_loop conv i (item # rest) enrichedItems subtotal =
     (let itemSubtotal = Price item * conv (Quantity item);
          subtotal1 = subtotal + itemSubtotal;
          productName = (if ProductName item = [] then ''Product '' @ ProductID item
                         else ProductName item)
      in enrich_loop conv (Suc i) rest
           (enrichedItems[i := \<lparr>ProductID = ProductID item, ProductName = productName,
                                 Quantity = Quantity item, Price = Price item,
                                 Subtotal_item = itemSubtotal\<rparr>])
           subtotal1)"

text \<open>
  \<^verbatim>\<open>defer tx.Rollback(ctx)\<close> runs on every return after a successful \<^verbatim>\<open>Begin\<close>;
  its result is dropped.
\<close>

definition deferred_Rollback :: "'f pgxpool \<Rightarrow> 'f Transaction \<Rightarrow> 'f pgxpool" where
  "deferred_Rollback p tx = snd (snd (Rollback p tx))"

definition CreateOrder ::
  "(int \<Rightarrow> 'f::{plus,times}) \<Rightarrow> 'f pgxpool \<Rightarrow> 'f CreateOrderRequest \<Rightarrow>
     (error + 'f Order) \<times> 'f pgxpool" where
  "CreateOrder conv p req =
     (if length (Items_req req) = 0 then (Inl ErrInvalidOrder, p)
      else
        (let (enrichedItems, subtotal) =
               enrich_loop conv 0 (Items_req req)
                 (replicate (length (Items_req req)) (zero_OrderItem conv)) (conv 0);
             order = \<lparr>ID = [], UserID = UserID_req req, Status = ''pending'',
                      Items = enrichedItems, Subtotal = subtotal, Shipping = conv 5,
                      Total = subtotal + conv 5, CreatedAt = 0\<rparr>
         in (case Begin p of
               (Inl err, p1) \<Rightarrow> (Inl err, p1)
             | (Inr tx, p1) \<Rightarrow>
                 (case CreateWithTx p1 tx order of
                    (Some err, order1, tx1, p2) \<Rightarrow> (Inl err, deferred_Rollback p2 tx1)
                  | (None, order1, tx1, p2) \<Rightarrow>
                      (case Commit p2 tx1 of
                         (Some err, tx2, p3) \<Rightarrow> (Inl err, deferred_Rollback p3 tx2)
                       | (None, tx2, p3) \<Rightarrow> (Inr order1, deferred_Rollback p3 tx2))))))"

section \<open>Repository: reads\<close>

text \<open>
  Reads go through the pool and see the committed rows only. A row matches
  \<^verbatim>\<open>WHERE id = $1\<close> when its id, written in decimal, is the text given; a text the
  server cannot convert is one of the faults. Both order queries select the columns
  of the order row and nothing of its items.
\<close>

definition order_of_row :: "'f order_row \<Rightarrow> 'f Order" where
  "order_of_row r =
     \<lparr>ID = Itoa (id_col r), UserID = user_id_col r, Status = status_col r, Items = [],
      Subtotal = subtotal_col r, Shipping = shipping_col r, Total = total_col r,
      CreatedAt = created_at_col r\<rparr>"

definition item_of_row :: "'f order_item_row \<Rightarrow> 'f OrderItem" where
  "item_of_row r =
     \<lparr>ProductID = product_id_col r, ProductName = product_name_col r,
      Quantity = quantity_col r, Price = price_col r, Subtotal_item = item_subtotal_col r\<rparr>"

definition QueryRow_order :: "'f pgxpool \<Rightarrow> string \<Rightarrow> (pgx_error + 'f order_row) \<times> 'f pgxpool" where
  "QueryRow_order p ident =
     (case next_fault p of
        (Some e, p1) \<Rightarrow> (Inl e, p1)
      | (None, p1) \<Rightarrow>
          (case filter (\<lambda>r. Itoa (id_col r) = ident) (orders p1) of
             [] \<Rightarrow> (Inl ErrNoRows, p1)
           | r # _ \<Rightarrow> (Inr r, p1)))"

definition Query_items :: "'f pgxpool \<Rightarrow> int \<Rightarrow> (pgx_error + 'f order_item_row list) \<times> 'f pgxpool" where
  "Query_items p idInt =
     (case next_fault p of
        (Some e, p1) \<Rightarrow> (Inl e, p1)
      | (None, p1) \<Rightarrow> (Inr (filter (\<lambda>r. order_id_col r = idInt) (order_items p1)), p1))"

text \<open>\<^verbatim>\<open>ORDER BY created_at DESC\<close>: the greatest instant first.\<close>

definition Query_orders_by_user ::
  "'f pgxpool \<Rightarrow> string \<Rightarrow> (pgx_error + 'f order_row list) \<times> 'f pgxpool" where
  "Query_orders_by_user p userID =
     (case next_fault p of
        (Some e, p1) \<Rightarrow> (Inl e, p1)
      | (None, p1) \<Rightarrow>
          (Inr (sort_key (\<lambda>r. - created_at_col r)
                 (filter (\<lambda>r. user_id_col r = userID) (orders p1))), p1))"

text \<open>
  The loops over \<^verbatim>\<open>rows.Next()\<close>: rows are appended in the order the query delivers
  them. A row whose \<^verbatim>\<open>Scan\<close> fails is not appended (\<^verbatim>\<open>continue\<close>); the failed
  \<^verbatim>\<open>Scan\<close> has closed the rows, so the next \<^verbatim>\<open>rows.Next()\<close> ends the loop with
  what was read so far.
\<close>

fun scan_items ::
  "'f pgxpool \<Rightarrow> 'f order_item_row list \<Rightarrow> 'f OrderItem list \<Rightarrow> 'f OrderItem list \<times> 'f pgxpool" where
  "scan_items p [] acc = (acc, p)"
| "scan_items p (r # rows) acc =
     (case next_fault p of
        (Some e, p1) \<Rightarrow> (acc, p1)
      | (None, p1) \<Rightarrow> scan_items p1 rows (acc @ [item_of_row r]))"

fun scan_orders ::
  "'f pgxpool \<Rightarrow> 'f order_row list \<Rightarrow> 'f Order list \<Rightarrow> 'f Order list \<times> 'f pgxpool" where
  "scan_orders p [] acc = (acc, p)"
| "scan_orders p (r # rows) acc =
     (case next_fault p of
        (Some e, p1) \<Rightarrow> (acc, p1)
      | (None, p1) \<Rightarrow> scan_orders p1 rows (acc @ [order_of_row r]))"

definition FindByID :: "'f pgxpool \<Rightarrow> string \<Rightarrow> (error + 'f Order) \<times> 'f pgxpool" where
  "FindByID p ident =
     (case QueryRow_order p ident of
        (Inl e, p1) \<Rightarrow>
          (if e = ErrNoRows then (Inl ErrNotFound, p1) else (Inl (Pgx e), p1))
      | (Inr r, p1) \<Rightarrow>
          (let order = order_of_row r in
           (case Query_items p1 (id_col r) of
              (Inl e, p2) \<Rightarrow> (Inl (Pgx e), p2)
            | (Inr rows, p2) \<Rightarrow>
                (case scan_items p2 rows (Items order) of
                   (items, p3) \<Rightarrow> (Inr (order\<lparr>Items := items\<rparr>), p3)))))"

definition FindByUserID :: "'f pgxpool \<Rightarrow> string \<Rightarrow> (error + 'f Order list) \<times> 'f pgxpool" where
  "FindByUserID p userID =
     (case Query_orders_by_user p userID of
        (Inl e, p1) \<Rightarrow> (Inl (Pgx e), p1)
      | (Inr rows, p1) \<Rightarrow>
          (case scan_orders p1 rows [] of (found, p2) \<Rightarrow> (Inr found, p2)))"

section \<open>Service: ListOrders and GetOrder\<close>

definition ListOrders :: "'f pgxpool \<Rightarrow> string \<Rightarrow> (error + 'f Order list) \<times> 'f pgxpool" where
  "ListOrders p userID =
     (case FindByUserID p userID of
        (Inl err, p1) \<Rightarrow> (Inl err, p1)
      | (Inr found, p1) \<Rightarrow> (Inr found, p1))"

definition GetOrder :: "'f pgxpool \<Rightarrow> string \<Rightarrow> (error + 'f Order) \<times> 'f pgxpool" where
  "GetOrder p ident =
     (case FindByID p ident of
        (Inl err, p1) \<Rightarrow>
          (if errors_Is err ErrNotFound then (Inl ErrOrderNotFound, p1) else (Inl err, p1))
      | (Inr order, p1) \<Rightarrow> (Inr order, p1))"

section \<open>Downstream HTTP clients\<close>

text \<open>
  The network is a parameter \<open>net\<close>: for each request, either the request cannot be
  built, or the call fails (refused, timed out, cancelled), or a response comes back
  with its status code and body. Decoding a shipment from a body is the parameter
  \<open>decode\<close>.
\<close>

record http_request =
  Method :: string
  URL :: string
  Authorization :: "string option"

datatype http_reply =
    NewRequestError error
  | DoError error
  | Response int string

record Shipment =
  ID_shipment :: int
  OrderID :: int
  TrackingNumber :: string
  Carrier :: string
  Status_shipment :: string
  EstimatedDelivery :: "string option"
  CreatedAt_shipment :: string
  UpdatedAt :: string

record ShippingClient =
  baseURL :: string

record CartClient =
  baseURL_cart :: string

definition GetShipmentByOrderID ::
  "ShippingClient \<Rightarrow> (http_request \<Rightarrow> http_reply) \<Rightarrow> (string \<Rightarrow> error + Shipment) \<Rightarrow> string \<Rightarrow>
     Shipment option \<times> error option" where
  "GetShipmentByOrderID c net decode orderID =
     (case net \<lparr>Method = ''GET'', URL = baseURL c @ ''/api/v1/shipping/orders/'' @ orderID,
                Authorization = None\<rparr> of
        NewRequestError err \<Rightarrow> (None, Some (Wrapped ''create shipping request'' err))
      | DoError err \<Rightarrow> (None, Some (Wrapped ''shipping service call failed'' err))
      | Response code content \<Rightarrow>
          (if code = 404 then (None, None)
           else if code \<noteq> 200 then
             (None, Some (ErrorString (''shipping service returned status '' @ Itoa code)))
           else (case decode content of
                   Inl err \<Rightarrow> (None, Some (Wrapped ''failed to decode shipment response'' err))
                 | Inr shipment \<Rightarrow> (Some shipment, None))))"

definition ClearCart :: "CartClient \<Rightarrow> (http_request \<Rightarrow> http_reply) \<Rightarrow> string \<Rightarrow> error option" where
  "ClearCart c net authHeader =
     (case net \<lparr>Method = ''DELETE'', URL = baseURL_cart c @ ''/api/v1/cart'',
                Authorization = (if authHeader \<noteq> [] then Some authHeader else None)\<rparr> of
        NewRequestError err \<Rightarrow> Some (Wrapped ''create request'' err)
      | DoError err \<Rightarrow> Some (Wrapped ''request cart service'' err)
      | Response code content \<Rightarrow>
          (if code < 200 \<or> code \<ge> 300 then
             Some (ErrorString (''cart service returned status '' @ Itoa code))
           else None))"

section \<open>Handlers (package web/v1)\<close>

text \<open>
  Of the request context the handlers read the keys set by the middleware
  (\<^verbatim>\<open>c.GetString\<close>), a header, a path parameter, and what \<^verbatim>\<open>c.ShouldBindJSON\<close> makes
  of the body. The package-level variables are \<open>globals\<close>. A handler writes one
  response; its log lines and the pool it leaves are part of the outcome. Tracing
  spans are left out, and the logger the middleware puts in the context is taken to
  be there.
\<close>

record 'f Context =
  Keys :: "string \<rightharpoonup> string"
  Header :: "string \<rightharpoonup> string"
  Params :: "string \<rightharpoonup> string"
  ShouldBindJSON :: "error + 'f CreateOrderRequest"

definition GetString :: "'f Context \<Rightarrow> string \<Rightarrow> string" where
  "GetString c key = (case Keys c key of None \<Rightarrow> [] | Some v \<Rightarrow> v)"

definition GetHeader :: "'f Context \<Rightarrow> string \<Rightarrow> string" where
  "GetHeader c key = (case Header c key of None \<Rightarrow> [] | Some v \<Rightarrow> v)"

definition Param :: "'f Context \<Rightarrow> string \<Rightarrow> string" where
  "Param c key = (case Params c key of None \<Rightarrow> [] | Some v \<Rightarrow> v)"

datatype OrderService = NewOrderService

record OrderHandler =
  orderService :: OrderService

record globals =
  handler :: "OrderHandler option"
  shippingClient :: "ShippingClient option"
  cartClient :: "CartClient option"

record 'f OrderDetailsResponse =
  Order_field :: "'f Order"
  Shipment_field :: "Shipment option"

datatype 'f json =
    ErrorJSON string
  | OrderJSON "'f Order"
  | DetailsJSON "'f OrderDetailsResponse"

record 'f outcome =
  status :: int
  body :: "'f json"
  logs :: "string list"
  db :: "'f pgxpool"

subsection \<open>validation.go\<close>

fun HasPrefix :: "string \<Rightarrow> string \<Rightarrow> bool" where
  "HasPrefix s [] = True"
| "HasPrefix [] (c # cs) = False"
| "HasPrefix (x # xs) (c # cs) = (x = c \<and> HasPrefix xs cs)"

fun Contains :: "string \<Rightarrow> string \<Rightarrow> bool" where
  "Contains [] sub = (sub = [])"
| "Contains (x # xs) sub = (HasPrefix (x # xs) sub \<or> Contains xs sub)"

definition sanitizeValidationError :: "error option \<Rightarrow> string" where
  "sanitizeValidationError err =
     (case err of
        None \<Rightarrow> []
      | Some e \<Rightarrow>
          (let msg = Error e in
           if Contains msg ''validation'' \<or> Contains msg ''Field validation'' \<or>
              Contains msg ''cannot unmarshal'' \<or> Contains msg ''bind'' \<or> Contains msg ''Key:''
           then ''Invalid request''
           else if length msg < 100 \<and> \<not> Contains msg ''Error:'' then msg
           else ''Invalid request''))"

subsection \<open>handler.go: CreateOrder\<close>

definition getCartClient :: "globals \<Rightarrow> CartClient option \<times> string list" where
  "getCartClient g =
     (cartClient g, if cartClient g = None then [''Cart client not initialized''] else [])"

definition CreateOrder_handler ::
  "(int \<Rightarrow> 'f::{plus,times}) \<Rightarrow> globals \<Rightarrow> (http_request \<Rightarrow> http_reply) \<Rightarrow> 'f pgxpool \<Rightarrow>
     'f Context \<Rightarrow> 'f outcome" where
  "CreateOrder_handler conv g net p c =
     (case ShouldBindJSON c of
        Inl err \<Rightarrow>
          \<lparr>status = 400, body = ErrorJSON (sanitizeValidationError (Some err)),
           logs = [''Invalid request''], db = p\<rparr>
      | Inr req \<Rightarrow>
          (let userID = GetString c ''user_id'' in
           if userID = [] then
             \<lparr>status = 401, body = ErrorJSON ''Authentication required'',
              logs = [''CreateOrder: no user_id in context''], db = p\<rparr>
           else
             (case CreateOrder conv p (req\<lparr>UserID_req := userID\<rparr>) of
                (Inl err, p1) \<Rightarrow>
                  (if errors_Is err ErrInvalidOrder then
                     \<lparr>status = 400, body = ErrorJSON ''Invalid order'',
                      logs = [''Failed to create order''], db = p1\<rparr>
                   else
                     \<lparr>status = 500, body = ErrorJSON ''Internal server error'',
                      logs = [''Failed to create order''], db = p1\<rparr>)
              | (Inr order, p1) \<Rightarrow>
                  (case getCartClient g of
                     (None, warned) \<Rightarrow>
                       \<lparr>status = 201, body = OrderJSON order,
                        logs = ''Order created'' # warned, db = p1\<rparr>
                   | (Some client, warned) \<Rightarrow>
                       (case ClearCart client net (GetHeader c ''Authorization'') of
                          Some err \<Rightarrow>
                            \<lparr>status = 201, body = OrderJSON order,
                             logs = ''Order created'' # warned @ [''Best-effort cart clear failed''],
                             db = p1\<rparr>
                        | None \<Rightarrow>
                            \<lparr>status = 201, body = OrderJSON order,
                             logs = ''Order created'' # warned, db = p1\<rparr>)))))"

subsection \<open>aggregation.go: GetOrderDetails\<close>

definition GetOrderDetails ::
  "globals \<Rightarrow> (http_request \<Rightarrow> http_reply) \<Rightarrow> (string \<Rightarrow> error + Shipment) \<Rightarrow> 'f pgxpool \<Rightarrow>
     'f Context \<Rightarrow> 'f outcome" where
  "GetOrderDetails g net decode p c =
     (let orderID = Param c ''id'' in
      (case handler g of
         None \<Rightarrow>
           \<lparr>status = 500, body = ErrorJSON ''Service not initialized'', logs = [], db = p\<rparr>
       | Some h \<Rightarrow>
           (case GetOrder p orderID of
              (Inl err, p1) \<Rightarrow>
                (if errors_Is err ErrOrderNotFound then
                   \<lparr>status = 404, body = ErrorJSON ''Order not found'',
                    logs = [''Failed to get order''], db = p1\<rparr>
                 else
                   \<lparr>status = 500, body = ErrorJSON ''Internal server error'',
                    logs = [''Failed to get order''], db = p1\<rparr>)
            | (Inr order, p1) \<Rightarrow>
                (let (shipment, warned) =
                       (case shippingClient g of
                          None \<Rightarrow> (None, [])
                        | Some client \<Rightarrow>
                            (case GetShipmentByOrderID client net decode orderID of
                               (found, Some err) \<Rightarrow> (found, [''Could not fetch shipment''])
                             | (found, None) \<Rightarrow> (found, [])))
                 in \<lparr>status = 200,
                     body = DetailsJSON \<lparr>Order_field = order, Shipment_field = shipment\<rparr>,
                     logs = warned @ [''Order details retrieved''], db = p1\<rparr>))))"

section \<open>Notions used in the statements\<close>

text \<open>
  What the enrichment loop makes of one requested item, the item subtotals in the
  order of the request, the order the service builds before it opens the
  transaction, and the rows the repository writes for an order and for an item.
\<close>

definition enrich_item :: "(int \<Rightarrow> 'f::{plus,times}) \<Rightarrow> 'f OrderItem \<Rightarrow> 'f OrderItem" where
  "enrich_item conv item =
     \<lparr>ProductID = ProductID item,
      ProductName = (if ProductName item = [] then ''Product '' @ ProductID item
                     else ProductName item),
      Quantity = Quantity item, Price = Price item,
      Subtotal_item = Price item * conv (Quantity item)\<rparr>"

definition item_subtotals :: "(int \<Rightarrow> 'f::{plus,times}) \<Rightarrow> 'f OrderItem list \<Rightarrow> 'f list" where
  "item_subtotals conv items = map (\<lambda>it. Price it * conv (Quantity it)) items"

definition new_order :: "(int \<Rightarrow> 'f::{plus,times}) \<Rightarrow> 'f CreateOrderRequest \<Rightarrow> 'f Order" where
  "new_order conv req =
     \<lparr>ID = [], UserID = UserID_req req, Status = ''pending'',
      Items = map (enrich_item conv) (Items_req req),
      Subtotal = foldl (+) (conv 0) (item_subtotals conv (Items_req req)),
      Shipping = conv 5,
      Total = foldl (+) (conv 0) (item_subtotals conv (Items_req req)) + conv 5,
      CreatedAt = 0\<rparr>"

definition item_row :: "int \<Rightarrow> 'f OrderItem \<Rightarrow> 'f order_item_row" where
  "item_row oid item =
     \<lparr>order_id_col = oid, product_id_col = ProductID item,
      product_name_col = ProductName item, quantity_col = Quantity item,
      price_col = Price item, item_subtotal_col = Subtotal_item item\<rparr>"

definition order_row_of :: "int \<Rightarrow> int \<Rightarrow> 'f Order \<Rightarrow> 'f order_row" where
  "order_row_of oid t order =
     \<lparr>id_col = oid, user_id_col = UserID order, status_col = Status order,
      subtotal_col = Subtotal order, shipping_col = Shipping order,
      total_col = Total order, created_at_col = t\<rparr>"

text \<open>
  The rows a scan loop reads under a fault script (one entry per row, the first
  failed \<^verbatim>\<open>Scan\<close> ends the loop), and the committed order rows of one user.
\<close>

fun scanned :: "pgx_error option list \<Rightarrow> 'a list \<Rightarrow> 'a list" where
  "scanned [] rows = rows"
| "scanned (f # fs) [] = []"
| "scanned (f # fs) (r # rows) = (if f = None then r # scanned fs rows else [])"

definition user_rows :: "'f pgxpool \<Rightarrow> string \<Rightarrow> 'f order_row list" where
  "user_rows p u = filter (\<lambda>r. user_id_col r = u) (orders p)"


text \<open>
  The request the shipping client sends for an order id, and the shipment the
  aggregation handler ends up with: none without a client, otherwise what the client
  returns.
\<close>

definition shipping_request :: "ShippingClient \<Rightarrow> string \<Rightarrow> http_request" where
  "shipping_request client orderID =
     \<lparr>Method = ''GET'', URL = baseURL client @ ''/api/v1/shipping/orders/'' @ orderID,
      Authorization = None\<rparr>"

definition attached_shipment ::
  "globals \<Rightarrow> (http_request \<Rightarrow> http_reply) \<Rightarrow> (string \<Rightarrow> error + Shipment) \<Rightarrow> string \<Rightarrow>
     Shipment option" where
  "attached_shipment g net decode orderID =
     (case shippingClient g of
        None \<Rightarrow> None
      | Some client \<Rightarrow> fst (GetShipmentByOrderID client net decode orderID))"


subsection \<open>Sample data\<close>

text \<open>
  Amounts are real numbers in the samples and \<open>conv\<close> is the embedding of the
  integers. An empty database that never fails; the request of the service test
  (two of \<open>p1\<close> at 10.0 and one of \<open>p2\<close> at 5.0, no product names) and the order it
  yields; a database whose fourth call fails (for that request, the insert of the
  second item) and one whose fifth call fails (the commit).
\<close>

definition example_pool :: "real pgxpool" where
  "example_pool =
     \<lparr>orders = [], order_items = [], orders_id_seq = 0, now = 1700000000, faults = [],
      tx_log = []\<rparr>"

definition example_request :: "real CreateOrderRequest" where
  "example_request =
     \<lparr>UserID_req = ''u1'',
      Items_req =
        [\<lparr>ProductID = ''p1'', ProductName = [], Quantity = 2, Price = 10, Subtotal_item = 0\<rparr>,
         \<lparr>ProductID = ''p2'', ProductName = [], Quantity = 1, Price = 5, Subtotal_item = 0\<rparr>]\<rparr>"

definition example_order :: "real Order" where
  "example_order =
     \<lparr>ID = ''1'', UserID = ''u1'', Status = ''pending'',
      Items =
        [\<lparr>ProductID = ''p1'', ProductName = ''Product p1'', Quantity = 2, Price = 10,
          Subtotal_item = 20\<rparr>,
         \<lparr>ProductID = ''p2'', ProductName = ''Product p2'', Quantity = 1, Price = 5,
          Subtotal_item = 5\<rparr>],
      Subtotal = 25, Shipping = 5, Total = 30, CreatedAt = 0\<rparr>"

definition failing_pool :: "real pgxpool" where
  "failing_pool = example_pool\<lparr>faults := [None, None, None, Some (PgError ''23514'')]\<rparr>"

definition commit_failing_pool :: "real pgxpool" where
  "commit_failing_pool =
     example_pool\<lparr>faults := [None, None, None, None, Some (PgError ''40001'')]\<rparr>"

text \<open>
  A database with three committed orders, two of them of user \<open>1\<close>; what listing the
  orders of user \<open>1\<close> returns; what reading order \<open>1\<close> returns.
\<close>

definition stored_pool :: "real pgxpool" where
  "stored_pool =
     \<lparr>orders =
        [\<lparr>id_col = 1, user_id_col = ''1'', status_col = ''completed'', subtotal_col = 109.97,
          shipping_col = 5, total_col = 114.97, created_at_col = 100\<rparr>,
         \<lparr>id_col = 2, user_id_col = ''1'', status_col = ''shipped'', subtotal_col = 59.99,
          shipping_col = 5, total_col = 64.99, created_at_col = 300\<rparr>,
         \<lparr>id_col = 3, user_id_col = ''4'', status_col = ''pending'', subtotal_col = 59.98,
          shipping_col = 5, total_col = 64.98, created_at_col = 200\<rparr>],
      order_items =
        [\<lparr>order_id_col = 1, product_id_col = ''1'', product_name_col = ''Wireless Mouse'',
          quantity_col = 2, price_col = 29.99, item_subtotal_col = 59.98\<rparr>,
         \<lparr>order_id_col = 1, product_id_col = ''3'', product_name_col = ''USB-C Hub'',
          quantity_col = 1, price_col = 49.99, item_subtotal_col = 49.99\<rparr>,
         \<lparr>order_id_col = 2, product_id_col = ''5'', product_name_col = ''Webcam HD'',
          quantity_col = 1, price_col = 59.99, item_subtotal_col = 59.99\<rparr>,
         \<lparr>order_id_col = 3, product_id_col = ''1'', product_name_col = ''Wireless Mouse'',
          quantity_col = 2, price_col = 29.99, item_subtotal_col = 59.98\<rparr>],
      orders_id_seq = 3, now = 400, faults = [], tx_log = []\<rparr>"

definition stored_listing :: "real Order list" where
  "stored_listing =
     [\<lparr>ID = ''2'', UserID = ''1'', Status = ''shipped'', Items = [], Subtotal = 59.99,
       Shipping = 5, Total = 64.99, CreatedAt = 300\<rparr>,
      \<lparr>ID = ''1'', UserID = ''1'', Status = ''completed'', Items = [], Subtotal = 109.97,
       Shipping = 5, Total = 114.97, CreatedAt = 100\<rparr>]"

definition stored_order :: "real Order" where
  "stored_order =
     \<lparr>ID = ''1'', UserID = ''1'', Status = ''completed'',
      Items =
        [\<lparr>ProductID = ''1'', ProductName = ''Wireless Mouse'', Quantity = 2, Price = 29.99,
          Subtotal_item = 59.98\<rparr>,
         \<lparr>ProductID = ''3'', ProductName = ''USB-C Hub'', Quantity = 1, Price = 49.99,
          Subtotal_item = 49.99\<rparr>],
      Subtotal = 109.97, Shipping = 5, Total = 114.97, CreatedAt = 100\<rparr>"


text \<open>
  The package variables once initialised; a network that answers 404 and one that
  times out; a decoder that fails; the context of a details request for order \<open>1\<close>;
  the context of a creation request by the authenticated user \<open>u1\<close> whose payload
  names another user; a creation request without identity whose body does not bind;
  a request with a negative quantity and a negative price, and the order it yields;
  a request without items.
\<close>

definition wired :: globals where
  "wired =
     \<lparr>handler = Some \<lparr>orderService = NewOrderService\<rparr>,
      shippingClient = Some \<lparr>baseURL = ''http://shipping:8080''\<rparr>,
      cartClient = Some \<lparr>baseURL_cart = ''http://cart:8080''\<rparr>\<rparr>"

definition net_404 :: "http_request \<Rightarrow> http_reply" where
  "net_404 request = Response 404 []"

definition net_timeout :: "http_request \<Rightarrow> http_reply" where
  "net_timeout request = DoError (ErrorString ''context deadline exceeded'')"

definition no_decode :: "string \<Rightarrow> error + Shipment" where
  "no_decode content = Inl (ErrorString ''unexpected end of JSON input'')"

definition details_context :: "real Context" where
  "details_context =
     \<lparr>Keys = Map.empty, Header = Map.empty, Params = [''id'' \<mapsto> ''1''],
      ShouldBindJSON = Inl (ErrorString ''EOF'')\<rparr>"

definition create_context :: "real Context" where
  "create_context =
     \<lparr>Keys = [''user_id'' \<mapsto> ''u1''], Header = [''Authorization'' \<mapsto> ''Bearer token''],
      Params = Map.empty,
      ShouldBindJSON = Inr (example_request\<lparr>UserID_req := ''mallory''\<rparr>)\<rparr>"

definition malformed_context :: "real Context" where
  "malformed_context =
     \<lparr>Keys = Map.empty, Header = Map.empty, Params = Map.empty,
      ShouldBindJSON = Inl (ErrorString ''unexpected EOF'')\<rparr>"

definition negative_request :: "real CreateOrderRequest" where
  "negative_request =
     \<lparr>UserID_req = ''u1'',
      Items_req =
        [\<lparr>ProductID = ''p1'', ProductName = ''Widget'', Quantity = - 1, Price = 10,
          Subtotal_item = 0\<rparr>,
         \<lparr>ProductID = ''p2'', ProductName = ''Gadget'', Quantity = 1, Price = - 2,
          Subtotal_item = 0\<rparr>]\<rparr>"

definition negative_order :: "real Order" where
  "negative_order =
     \<lparr>ID = ''1'', UserID = ''u1'', Status = ''pending'',
      Items =
        [\<lparr>ProductID = ''p1'', ProductName = ''Widget'', Quantity = - 1, Price = 10,
          Subtotal_item = - 10\<rparr>,
         \<lparr>ProductID = ''p2'', ProductName = ''Gadget'', Quantity = 1, Price = - 2,
          Subtotal_item = - 2\<rparr>],
      Subtotal = - 12, Shipping = 5, Total = - 7, CreatedAt = 0\<rparr>"

definition empty_request :: "real CreateOrderRequest" where
  "empty_request = \<lparr>UserID_req = ''u1'', Items_req = []\<rparr>"

section \<open>Properties of order creation\<close>

subsection \<open>The enrichment loop\<close>

lemma take_Suc_update: "i < length xs \<Longrightarrow> take (Suc i) (xs[i := x]) = take i xs @ [x]"
  by (simp add: take_Suc_conv_app_nth)

lemma enrich_loop_inv:
  "i + length items \<le> length enriched \<Longrightarrow>
   enrich_loop conv i items enriched s =
     (take i enriched @ map (enrich_item conv) items @ drop (i + length items) enriched,
      foldl (+) s (item_subtotals conv items))"
proof (induction items arbitrary: i enriched s)
  case Nil
  then show ?case by (simp add: item_subtotals_def)
next
  case (Cons item rest)
  let ?x = "enrich_item conv item"
  have len: "Suc i + length rest \<le> length (enriched[i := ?x])" using Cons.prems by simp
  have i: "i < length enriched" using Cons.prems by simp
  show ?case
    using Cons.IH[OF len] i
    by (simp add: Let_def enrich_item_def take_Suc_update item_subtotals_def)
qed

lemma enrich_loop_all:
  "enrich_loop conv 0 items (replicate (length items) z) s =
     (map (enrich_item conv) items, foldl (+) s (item_subtotals conv items))"
  using enrich_loop_inv[of 0 items "replicate (length items) z" conv s] by simp

lemma CreateOrder_unfold:
  "Items_req req \<noteq> [] \<Longrightarrow>
   CreateOrder conv p req =
     (case Begin p of
        (Inl err, p1) \<Rightarrow> (Inl err, p1)
      | (Inr tx, p1) \<Rightarrow>
          (case CreateWithTx p1 tx (new_order conv req) of
             (Some err, order1, tx1, p2) \<Rightarrow> (Inl err, deferred_Rollback p2 tx1)
           | (None, order1, tx1, p2) \<Rightarrow>
               (case Commit p2 tx1 of
                  (Some err, tx2, p3) \<Rightarrow> (Inl err, deferred_Rollback p3 tx2)
                | (None, tx2, p3) \<Rightarrow> (Inr order1, deferred_Rollback p3 tx2))))"
  unfolding CreateOrder_def new_order_def by (simp add: enrich_loop_all)


subsection \<open>The fault script\<close>

lemma next_fault_cases:
  "next_fault p = (f, p1) \<Longrightarrow>
     orders p1 = orders p \<and> order_items p1 = order_items p \<and> tx_log p1 = tx_log p \<and>
     orders_id_seq p1 = orders_id_seq p \<and> now p1 = now p \<and>
     (faults p = [] \<and> f = None \<and> p1 = p \<or> faults p = f # faults p1)"
  by (auto simp: next_fault_def split: list.splits)

lemma next_fault_None [simp]:
  "faults p = None # fs \<Longrightarrow> next_fault p = (None, p\<lparr>faults := fs\<rparr>)"
  by (simp add: next_fault_def)

lemma next_fault_Some [simp]:
  "faults p = Some e # fs \<Longrightarrow> next_fault p = (Some e, p\<lparr>faults := fs\<rparr>)"
  by (simp add: next_fault_def)

lemma next_fault_Nil [simp]:
  "faults p = [] \<Longrightarrow> next_fault p = (None, p)"
  by (simp add: next_fault_def)

lemma next_fault_same:
  "faults p = faults q \<Longrightarrow> next_fault p = (f, p1) \<Longrightarrow> next_fault q = (g, q1) \<Longrightarrow>
     f = g \<and> faults p1 = faults q1"
  by (auto simp: next_fault_def split: list.splits)

lemma next_fault_tables:
  "next_fault p = (f, p1) \<Longrightarrow> orders p1 = orders p \<and> order_items p1 = order_items p"
  by (auto simp: next_fault_def split: list.splits)


subsection \<open>What a transaction leaves of the committed tables\<close>

lemma tx_insert_item_keeps:
  "tx_insert_item p t oid item = (r, t1, p1) \<Longrightarrow>
     orders p1 = orders p \<and> order_items p1 = order_items p \<and> tx_log p1 = tx_log p \<and>
     tx_closed t1 = tx_closed t"
  by (auto simp: tx_insert_item_def split: if_splits prod.splits option.splits
           dest: next_fault_cases)

lemma insert_items_keeps:
  "insert_items p t oid items = (r, t1, p1) \<Longrightarrow>
     orders p1 = orders p \<and> order_items p1 = order_items p \<and> tx_log p1 = tx_log p \<and>
     tx_closed t1 = tx_closed t"
proof (induction items arbitrary: p t)
  case Nil
  then show ?case by simp
next
  case (Cons item rest)
  obtain r0 t0 p0 where s: "tx_insert_item p t oid item = (r0, t0, p0)"
    by (cases "tx_insert_item p t oid item") auto
  note k = tx_insert_item_keeps[OF s]
  show ?case
  proof (cases r0)
    case None
    with Cons.prems s have "insert_items p0 t0 oid rest = (r, t1, p1)" by simp
    from Cons.IH[OF this] k show ?thesis by simp
  next
    case (Some e)
    with Cons.prems s k show ?thesis by auto
  qed
qed

lemma tx_insert_order_keeps:
  "tx_insert_order p t order = (r, t1, p1) \<Longrightarrow>
     orders p1 = orders p \<and> order_items p1 = order_items p \<and> tx_log p1 = tx_log p \<and>
     tx_closed t1 = tx_closed t"
  by (auto simp: tx_insert_order_def Let_def split: if_splits prod.splits option.splits
           dest: next_fault_cases)

lemma CreateWithTx_keeps:
  "CreateWithTx p tx order = (r, order1, tx1, p1) \<Longrightarrow>
     orders p1 = orders p \<and> order_items p1 = order_items p \<and> tx_log p1 = tx_log p"
proof (cases tx)
  case (MockTransaction cc rc)
  assume "CreateWithTx p tx order = (r, order1, tx1, p1)"
  with MockTransaction show ?thesis by simp
next
  case (PostgresTransaction t)
  assume a: "CreateWithTx p tx order = (r, order1, tx1, p1)"
  obtain r0 t0 p0 where s: "tx_insert_order p t order = (r0, t0, p0)"
    by (cases "tx_insert_order p t order") auto
  note k = tx_insert_order_keeps[OF s]
  show ?thesis
  proof (cases r0)
    case (Inl e)
    with a s k PostgresTransaction show ?thesis by auto
  next
    case (Inr oid)
    obtain r2 t2 p2 where i: "insert_items p0 t0 oid (Items (order\<lparr>ID := Itoa oid\<rparr>)) = (r2, t2, p2)"
      by (cases "insert_items p0 t0 oid (Items (order\<lparr>ID := Itoa oid\<rparr>))") auto
    from a s Inr i PostgresTransaction have "p1 = p2" by (simp add: Let_def)
    with insert_items_keeps[OF i] k show ?thesis by simp
  qed
qed

lemma CreateWithTx_open:
  "CreateWithTx p (PostgresTransaction t) order = (r, order1, tx1, p1) \<Longrightarrow>
     \<exists>t1. tx1 = PostgresTransaction t1 \<and> tx_closed t1 = tx_closed t"
  by (auto simp: Let_def split: prod.splits sum.splits
          dest!: tx_insert_order_keeps insert_items_keeps)

lemma CreateWithTx_order:
  "CreateWithTx p tx order = (err, order1, tx1, p1) \<Longrightarrow> \<exists>i. order1 = order\<lparr>ID := i\<rparr>"
proof (cases tx)
  case (MockTransaction c r)
  assume "CreateWithTx p tx order = (err, order1, tx1, p1)"
  with MockTransaction have "order1 = order\<lparr>ID := ID order\<rparr>" by simp
  then show ?thesis by blast
next
  case (PostgresTransaction t)
  assume "CreateWithTx p tx order = (err, order1, tx1, p1)"
  with PostgresTransaction show ?thesis
    by (auto simp: Let_def split: prod.splits sum.splits intro: exI[of _ "ID order"])
qed

lemma CreateOrder_result:
  assumes "fst (CreateOrder conv p req) = Inr order"
  shows "Items_req req \<noteq> [] \<and> (\<exists>i. order = (new_order conv req)\<lparr>ID := i\<rparr>)"
proof -
  have ne: "Items_req req \<noteq> []"
    using assms by (auto simp: CreateOrder_def)
  show ?thesis
    using assms ne
    by (auto simp: CreateOrder_unfold split: prod.splits sum.splits option.splits
             dest: CreateWithTx_order)
qed

lemma Begin_ok:
  "faults p = [] \<or> (\<exists>fs. faults p = None # fs) \<Longrightarrow>
   Begin p = (Inr (PostgresTransaction \<lparr>tx_orders = [], tx_order_items = [], tx_closed = False\<rparr>),
              p\<lparr>faults := tl (faults p), tx_log := tx_log p @ [TxBegin]\<rparr>)"
  by (auto simp: Begin_def)

lemma Begin_cases:
  "Begin p = (r, p1) \<Longrightarrow>
     (\<exists>e. r = Inl (Pgx e) \<and> orders p1 = orders p \<and> order_items p1 = order_items p \<and>
           tx_log p1 = tx_log p) \<or>
     (r = Inr (PostgresTransaction \<lparr>tx_orders = [], tx_order_items = [], tx_closed = False\<rparr>) \<and>
      orders p1 = orders p \<and> order_items p1 = order_items p \<and>
      tx_log p1 = tx_log p @ [TxBegin])"
  by (auto simp: Begin_def split: prod.splits option.splits dest: next_fault_cases)

lemma deferred_Rollback_open:
  "\<not> tx_closed t \<Longrightarrow>
   deferred_Rollback p (PostgresTransaction t) = p\<lparr>tx_log := tx_log p @ [TxRollback]\<rparr>"
  by (simp add: deferred_Rollback_def)

lemma deferred_Rollback_closed:
  "tx_closed t \<Longrightarrow> deferred_Rollback p (PostgresTransaction t) = p"
  by (simp add: deferred_Rollback_def)

lemma Commit_cases:
  "\<not> tx_closed t \<Longrightarrow> Commit p (PostgresTransaction t) = (r, tx1, p1) \<Longrightarrow>
     (\<exists>e. r = Some (Pgx e) \<and> tx1 = PostgresTransaction (t\<lparr>tx_closed := True\<rparr>) \<and>
           orders p1 = orders p \<and> order_items p1 = order_items p \<and> tx_log p1 = tx_log p) \<or>
     (r = None \<and> tx1 = PostgresTransaction (t\<lparr>tx_closed := True\<rparr>) \<and>
      orders p1 = orders p @ tx_orders t \<and>
      order_items p1 = order_items p @ tx_order_items t \<and>
      tx_log p1 = tx_log p @ [TxCommit])"
  by (auto split: prod.splits option.splits dest: next_fault_cases)

lemma CreateOrder_failure:
  assumes "fst (CreateOrder conv p req) = Inl err"
  shows "orders (snd (CreateOrder conv p req)) = orders p \<and>
         order_items (snd (CreateOrder conv p req)) = order_items p \<and>
         (tx_log (snd (CreateOrder conv p req)) = tx_log p \<or>
          tx_log (snd (CreateOrder conv p req)) = tx_log p @ [TxBegin] \<or>
          tx_log (snd (CreateOrder conv p req)) = tx_log p @ [TxBegin, TxRollback])"
proof (cases "Items_req req = []")
  case True
  then show ?thesis by (simp add: CreateOrder_def)
next
  case ne: False
  obtain r p1 where b: "Begin p = (r, p1)" by (cases "Begin p") auto
  from Begin_cases[OF b] show ?thesis
  proof
    assume "\<exists>e. r = Inl (Pgx e) \<and> orders p1 = orders p \<and> order_items p1 = order_items p \<and>
           tx_log p1 = tx_log p"
    with b ne show ?thesis by (auto simp: CreateOrder_unfold)
  next
    assume ok: "r = Inr (PostgresTransaction \<lparr>tx_orders = [], tx_order_items = [], tx_closed = False\<rparr>) \<and>
      orders p1 = orders p \<and> order_items p1 = order_items p \<and>
      tx_log p1 = tx_log p @ [TxBegin]"
    let ?t0 = "\<lparr>tx_orders = [], tx_order_items = [], tx_closed = False\<rparr> :: 'a pgx_tx"
    obtain r2 order1 tx1 p2 where
      c: "CreateWithTx p1 (PostgresTransaction ?t0) (new_order conv req) = (r2, order1, tx1, p2)"
      by (cases "CreateWithTx p1 (PostgresTransaction ?t0) (new_order conv req)") auto
    from CreateWithTx_open[OF c] obtain t1 where
      t1: "tx1 = PostgresTransaction t1" "\<not> tx_closed t1" by auto
    note k = CreateWithTx_keeps[OF c]
    show ?thesis
    proof (cases r2)
      case (Some e2)
      with b ok c t1 k ne show ?thesis
        by (simp add: CreateOrder_unfold deferred_Rollback_open)
    next
      case None
      obtain r3 tx2 p3 where m: "Commit p2 (PostgresTransaction t1) = (r3, tx2, p3)"
        by (cases "Commit p2 (PostgresTransaction t1)") auto
      from Commit_cases[OF t1(2) m] assms b ok c t1 k ne None m show ?thesis
        by (auto simp: CreateOrder_unfold deferred_Rollback_open deferred_Rollback_closed)
    qed
  qed
qed


subsection \<open>Where the first failure falls\<close>

lemma insert_items_ok:
  "faults p = replicate j None @ fs \<Longrightarrow> length items \<le> j \<Longrightarrow> \<not> tx_closed t \<Longrightarrow>
   insert_items p t oid items =
     (None, t\<lparr>tx_order_items := tx_order_items t @ map (item_row oid) items\<rparr>,
      p\<lparr>faults := replicate (j - length items) None @ fs\<rparr>)"
proof (induction items arbitrary: p t j)
  case Nil
  then show ?case by simp
next
  case (Cons item rest)
  then obtain j' where j: "j = Suc j'" by (cases j) auto
  let ?t1 = "t\<lparr>tx_order_items := tx_order_items t @ [item_row oid item]\<rparr>"
  let ?p1 = "p\<lparr>faults := replicate j' None @ fs\<rparr>"
  have step: "tx_insert_item p t oid item = (None, ?t1, ?p1)"
    using Cons.prems j by (simp add: tx_insert_item_def item_row_def)
  have "insert_items ?p1 ?t1 oid rest =
     (None, ?t1\<lparr>tx_order_items := tx_order_items ?t1 @ map (item_row oid) rest\<rparr>,
      ?p1\<lparr>faults := replicate (j' - length rest) None @ fs\<rparr>)"
    using Cons.prems j by (intro Cons.IH) auto
  with step j show ?case by simp
qed

lemma insert_items_fail:
  "faults p = replicate j None @ Some e # fs \<Longrightarrow> j < length items \<Longrightarrow> \<not> tx_closed t \<Longrightarrow>
   fst (insert_items p t oid items) = Some (Pgx e)"
proof (induction items arbitrary: p t j)
  case Nil
  then show ?case by simp
next
  case (Cons item rest)
  show ?case
  proof (cases j)
    case 0
    with Cons.prems show ?thesis by (simp add: tx_insert_item_def)
  next
    case (Suc j')
    let ?t1 = "t\<lparr>tx_order_items := tx_order_items t @ [item_row oid item]\<rparr>"
    let ?p1 = "p\<lparr>faults := replicate j' None @ Some e # fs\<rparr>"
    have step: "tx_insert_item p t oid item = (None, ?t1, ?p1)"
      using Cons.prems Suc by (simp add: tx_insert_item_def item_row_def)
    have "fst (insert_items ?p1 ?t1 oid rest) = Some (Pgx e)"
      using Cons.prems Suc by (intro Cons.IH) auto
    with step show ?thesis by simp
  qed
qed

lemma CreateOrder_fails_with:
  assumes ne: "Items_req req \<noteq> []"
      and f: "faults p = replicate k None @ Some e # rest"
      and k1: "1 \<le> k" and k2: "k \<le> length (Items_req req) + 2"
  shows "fst (CreateOrder conv p req) = Inl (Pgx e) \<and>
         tx_log (snd (CreateOrder conv p req)) =
           tx_log p @ (if k \<le> length (Items_req req) + 1 then [TxBegin, TxRollback]
                       else [TxBegin])"
proof -
  let ?t0 = "\<lparr>tx_orders = [], tx_order_items = [], tx_closed = False\<rparr> :: 'a pgx_tx"
  let ?o = "new_order conv req"
  obtain k' where k': "k = Suc k'" using k1 by (cases k) auto
  let ?p1 = "p\<lparr>faults := replicate k' None @ Some e # rest, tx_log := tx_log p @ [TxBegin]\<rparr>"
  have b: "Begin p = (Inr (PostgresTransaction ?t0), ?p1)"
    using f k' by (simp add: Begin_def)
  show ?thesis
  proof (cases k')
    case 0
    have "tx_insert_order ?p1 ?t0 ?o = (Inl e, ?t0, ?p1\<lparr>faults := rest\<rparr>)"
      using 0 by (simp add: tx_insert_order_def)
    with b ne 0 k' show ?thesis
      by (simp add: CreateOrder_unfold deferred_Rollback_open)
  next
    case (Suc j)
    let ?oid = "orders_id_seq p + 1"
    let ?row = "\<lparr>id_col = ?oid, user_id_col = UserID ?o, status_col = Status ?o,
                 subtotal_col = Subtotal ?o, shipping_col = Shipping ?o,
                 total_col = Total ?o, created_at_col = now p\<rparr>"
    let ?t1 = "?t0\<lparr>tx_orders := [?row]\<rparr>"
    let ?p2 = "?p1\<lparr>faults := replicate j None @ Some e # rest, orders_id_seq := ?oid\<rparr>"
    have io: "tx_insert_order ?p1 ?t0 ?o = (Inr ?oid, ?t1, ?p2)"
      using Suc by (simp add: tx_insert_order_def Let_def)
    have items: "Items (?o\<lparr>ID := Itoa ?oid\<rparr>) = map (enrich_item conv) (Items_req req)"
      by (simp add: new_order_def)
    let ?its = "map (enrich_item conv) (Items_req req)"
    have fp2: "faults ?p2 = replicate j None @ Some e # rest" by simp
    show ?thesis
    proof (cases "j < length (Items_req req)")
      case True
      have "fst (insert_items ?p2 ?t1 ?oid ?its) = Some (Pgx e)"
        using True by (intro insert_items_fail[OF fp2]) auto
      then obtain t2 p3 where ii: "insert_items ?p2 ?t1 ?oid ?its = (Some (Pgx e), t2, p3)"
        by (cases "insert_items ?p2 ?t1 ?oid ?its") auto
      from insert_items_keeps[OF ii]
      have open2: "\<not> tx_closed t2" and log3: "tx_log p3 = tx_log p @ [TxBegin]" by simp_all
      have kk: "k \<le> length (Items_req req) + 1" using True k' Suc by simp
      from b io items ne ii open2 log3 kk show ?thesis
        by (simp add: CreateOrder_unfold Let_def deferred_Rollback_open)
    next
      case False
      with k2 k' Suc have j: "j = length (Items_req req)" by simp
      have fp2': "faults ?p2 = replicate j None @ (Some e # rest)" by simp
      let ?t2 = "?t1\<lparr>tx_order_items := tx_order_items ?t1 @ map (item_row ?oid) ?its\<rparr>"
      let ?p3 = "?p2\<lparr>faults := replicate (j - length ?its) None @ (Some e # rest)\<rparr>"
      have ii: "insert_items ?p2 ?t1 ?oid ?its = (None, ?t2, ?p3)"
        using j by (intro insert_items_ok[OF fp2']) auto
      have f3: "faults ?p3 = Some e # rest" using j by simp
      have cm: "Commit ?p3 (PostgresTransaction ?t2) =
                  (Some (Pgx e), PostgresTransaction (?t2\<lparr>tx_closed := True\<rparr>),
                   ?p3\<lparr>faults := rest\<rparr>)"
        using f3 by simp
      have kk: "\<not> k \<le> length (Items_req req) + 1" using j k' Suc by simp
      have closed: "deferred_Rollback (?p3\<lparr>faults := rest\<rparr>)
                      (PostgresTransaction (?t2\<lparr>tx_closed := True\<rparr>)) = ?p3\<lparr>faults := rest\<rparr>"
        by (rule deferred_Rollback_closed) simp
      have res: "CreateOrder conv p req = (Inl (Pgx e), ?p3\<lparr>faults := rest\<rparr>)"
        using b io items ii ne cm closed by (simp add: CreateOrder_unfold Let_def)
      show ?thesis unfolding res using kk by simp
    qed
  qed
qed

lemma insert_items_no_faults:
  "faults p = [] \<Longrightarrow> \<not> tx_closed t \<Longrightarrow>
   insert_items p t oid items =
     (None, t\<lparr>tx_order_items := tx_order_items t @ map (item_row oid) items\<rparr>, p)"
proof (induction items arbitrary: t)
  case Nil
  then show ?case by simp
next
  case (Cons item rest)
  let ?t1 = "t\<lparr>tx_order_items := tx_order_items t @ [item_row oid item]\<rparr>"
  have step: "tx_insert_item p t oid item = (None, ?t1, p)"
    using Cons.prems by (simp add: tx_insert_item_def item_row_def)
  have "insert_items p ?t1 oid rest =
     (None, ?t1\<lparr>tx_order_items := tx_order_items ?t1 @ map (item_row oid) rest\<rparr>, p)"
    using Cons.prems by (intro Cons.IH) auto
  with step show ?case by simp
qed

lemma CreateOrder_commits:
  assumes "Items_req req \<noteq> []" and "faults p = []"
  shows "CreateOrder conv p req =
     (Inr ((new_order conv req)\<lparr>ID := Itoa (orders_id_seq p + 1)\<rparr>),
      p\<lparr>orders := orders p @ [order_row_of (orders_id_seq p + 1) (now p) (new_order conv req)],
        order_items := order_items p @
          map (item_row (orders_id_seq p + 1)) (map (enrich_item conv) (Items_req req)),
        orders_id_seq := orders_id_seq p + 1,
        tx_log := tx_log p @ [TxBegin, TxCommit]\<rparr>)"
proof -
  let ?t0 = "\<lparr>tx_orders = [], tx_order_items = [], tx_closed = False\<rparr> :: 'a pgx_tx"
  let ?o = "new_order conv req"
  let ?oid = "orders_id_seq p + 1"
  let ?p1 = "p\<lparr>tx_log := tx_log p @ [TxBegin]\<rparr>"
  let ?t1 = "?t0\<lparr>tx_orders := [order_row_of ?oid (now p) ?o]\<rparr>"
  let ?p2 = "?p1\<lparr>orders_id_seq := ?oid\<rparr>"
  let ?its = "map (enrich_item conv) (Items_req req)"
  let ?t2 = "?t1\<lparr>tx_order_items := tx_order_items ?t1 @ map (item_row ?oid) ?its\<rparr>"
  have b: "Begin p = (Inr (PostgresTransaction ?t0), ?p1)"
    using assms(2) by (simp add: Begin_def)
  have io: "tx_insert_order ?p1 ?t0 ?o = (Inr ?oid, ?t1, ?p2)"
    using assms(2) by (simp add: tx_insert_order_def Let_def order_row_of_def)
  have items: "Items (?o\<lparr>ID := Itoa ?oid\<rparr>) = ?its" by (simp add: new_order_def)
  have ii: "insert_items ?p2 ?t1 ?oid ?its = (None, ?t2, ?p2)"
    using assms(2) by (intro insert_items_no_faults) auto
  show ?thesis
    using assms b io items ii
    by (simp add: CreateOrder_unfold Let_def deferred_Rollback_def)
qed


subsection \<open>Reads depend on the committed tables and the fault script only\<close>

lemma scan_items_faults:
  "faults p = faults q \<Longrightarrow> fst (scan_items p rows acc) = fst (scan_items q rows acc)"
proof (induction rows arbitrary: p q acc)
  case Nil
  then show ?case by simp
next
  case (Cons r rows)
  obtain f p1 where a: "next_fault p = (f, p1)" by (cases "next_fault p") auto
  obtain g q1 where b: "next_fault q = (g, q1)" by (cases "next_fault q") auto
  from next_fault_same[OF Cons.prems a b] have fg: "f = g" and fq: "faults p1 = faults q1"
    by simp_all
  from Cons.IH[OF fq] a b fg show ?case by (cases g) simp_all
qed

lemma scan_orders_faults:
  "faults p = faults q \<Longrightarrow> fst (scan_orders p rows acc) = fst (scan_orders q rows acc)"
proof (induction rows arbitrary: p q acc)
  case Nil
  then show ?case by simp
next
  case (Cons r rows)
  obtain f p1 where a: "next_fault p = (f, p1)" by (cases "next_fault p") auto
  obtain g q1 where b: "next_fault q = (g, q1)" by (cases "next_fault q") auto
  from next_fault_same[OF Cons.prems a b] have fg: "f = g" and fq: "faults p1 = faults q1"
    by simp_all
  from Cons.IH[OF fq] a b fg show ?case by (cases g) simp_all
qed

lemma FindByID_same:
  assumes "orders p = orders q" and "order_items p = order_items q" and "faults p = faults q"
  shows "fst (FindByID p ident) = fst (FindByID q ident)"
proof -
  obtain f p1 where a: "next_fault p = (f, p1)" by (cases "next_fault p") auto
  obtain g q1 where b: "next_fault q = (g, q1)" by (cases "next_fault q") auto
  from next_fault_same[OF assms(3) a b] have fg: "f = g" and fq: "faults p1 = faults q1"
    by simp_all
  from next_fault_tables[OF a] next_fault_tables[OF b] assms
  have t: "orders p1 = orders q1" "order_items p1 = order_items q1" by simp_all
  obtain f2 p2 where a2: "next_fault p1 = (f2, p2)" by (cases "next_fault p1") auto
  obtain g2 q2 where b2: "next_fault q1 = (g2, q2)" by (cases "next_fault q1") auto
  from next_fault_same[OF fq a2 b2] have fg2: "f2 = g2" and fq2: "faults p2 = faults q2"
    by simp_all
  from next_fault_tables[OF a2] next_fault_tables[OF b2] t
  have t2: "order_items p2 = order_items q2" by simp
  have sc: "\<And>rows acc. fst (scan_items p2 rows acc) = fst (scan_items q2 rows acc)"
    by (rule scan_items_faults[OF fq2])
  show ?thesis
    using a b fg t a2 b2 fg2 t2 sc
    by (auto simp: FindByID_def QueryRow_order_def Query_items_def Let_def case_prod_unfold
             split: option.splits list.splits)
qed

lemma FindByUserID_same:
  assumes "orders p = orders q" and "faults p = faults q"
  shows "fst (FindByUserID p u) = fst (FindByUserID q u)"
proof -
  obtain f p1 where a: "next_fault p = (f, p1)" by (cases "next_fault p") auto
  obtain g q1 where b: "next_fault q = (g, q1)" by (cases "next_fault q") auto
  from next_fault_same[OF assms(2) a b] have fg: "f = g" and fq: "faults p1 = faults q1"
    by simp_all
  from next_fault_tables[OF a] next_fault_tables[OF b] assms
  have t: "orders p1 = orders q1" by simp
  have sc: "\<And>rows acc. fst (scan_orders p1 rows acc) = fst (scan_orders q1 rows acc)"
    by (rule scan_orders_faults[OF fq])
  show ?thesis
    using a b fg t sc
    by (auto simp: FindByUserID_def Query_orders_by_user_def case_prod_unfold
             split: option.splits)
qed


subsection \<open>The subtotal in exact arithmetic\<close>

text \<open>
  Where addition is associative with a neutral zero, the sum taken from left to right
  is the sum of the list.
\<close>

lemma foldl_add_sum_list:
  fixes a :: "'a::monoid_add"
  shows "foldl (+) a xs = a + sum_list xs"
  by (induction xs arbitrary: a) (simp_all add: add.assoc)

lemma CreateOrder_subtotal_exact:
  fixes p :: "'a::ring_1 pgxpool"
  assumes "fst (CreateOrder of_int p req) = Inr ord"
  shows "Subtotal ord = (\<Sum>it\<leftarrow>Items_req req. Price it * of_int (Quantity it))"
proof -
  from CreateOrder_result[OF assms] obtain i where "ord = (new_order of_int req)\<lparr>ID := i\<rparr>"
    by blast
  then show ?thesis
    by (simp add: new_order_def item_subtotals_def foldl_add_sum_list)
qed

subsection \<open>Running the sample request\<close>

lemmas run_defs =
  CreateOrder_def Begin_def next_fault_def tx_insert_order_def tx_insert_item_def
  deferred_Rollback_def zero_OrderItem_def Itoa_def digits.simps Let_def

lemma example_run:
  "fst (CreateOrder real_of_int example_pool example_request) = Inr example_order"
  by (simp add: run_defs example_pool_def example_request_def example_order_def)


section \<open>Properties of the reads\<close>

subsection \<open>The scan loops\<close>

lemma scanned_Nil [simp]: "scanned fs [] = []"
  by (cases fs) simp_all

lemma set_scanned: "set (scanned fs rows) \<subseteq> set rows"
  by (induction fs rows rule: scanned.induct) auto

lemma sorted_wrt_scanned: "sorted_wrt P rows \<Longrightarrow> sorted_wrt P (scanned fs rows)"
proof (induction fs rows rule: scanned.induct)
  case (3 f fs r rows)
  then show ?case using set_scanned[of fs rows] by auto
qed simp_all

lemma scan_orders_scanned:
  "fst (scan_orders p rows acc) = acc @ map order_of_row (scanned (faults p) rows)"
proof (induction rows arbitrary: p acc)
  case Nil
  then show ?case by simp
next
  case (Cons r rows)
  show ?case
  proof (cases "faults p")
    case Nil
    then have "next_fault p = (None, p)" by simp
    with Cons.IH[of p "acc @ [order_of_row r]"] Nil show ?thesis by simp
  next
    case (Cons f fs)
    then have n: "next_fault p = (f, p\<lparr>faults := fs\<rparr>)" by (simp add: next_fault_def)
    show ?thesis
    proof (cases f)
      case None
      with n Cons.IH[of "p\<lparr>faults := fs\<rparr>" "acc @ [order_of_row r]"] Cons show ?thesis by simp
    next
      case (Some e)
      with n Cons.IH[of "p\<lparr>faults := fs\<rparr>" acc] Cons show ?thesis by simp
    qed
  qed
qed

lemma scan_items_scanned:
  "fst (scan_items p rows acc) = acc @ map item_of_row (scanned (faults p) rows)"
proof (induction rows arbitrary: p acc)
  case Nil
  then show ?case by simp
next
  case (Cons r rows)
  show ?case
  proof (cases "faults p")
    case Nil
    then have "next_fault p = (None, p)" by simp
    with Cons.IH[of p "acc @ [item_of_row r]"] Nil show ?thesis by simp
  next
    case (Cons f fs)
    then have n: "next_fault p = (f, p\<lparr>faults := fs\<rparr>)" by (simp add: next_fault_def)
    show ?thesis
    proof (cases f)
      case None
      with n Cons.IH[of "p\<lparr>faults := fs\<rparr>" "acc @ [item_of_row r]"] Cons show ?thesis by simp
    next
      case (Some e)
      with n Cons.IH[of "p\<lparr>faults := fs\<rparr>" acc] Cons show ?thesis by simp
    qed
  qed
qed


subsection \<open>FindByUserID and ListOrders\<close>

lemma FindByUserID_fault:
  "faults p = Some e # fs \<Longrightarrow> FindByUserID p u = (Inl (Pgx e), p\<lparr>faults := fs\<rparr>)"
  by (simp add: FindByUserID_def Query_orders_by_user_def)

lemma FindByUserID_rows:
  assumes "fst (next_fault p) = None"
  shows "fst (FindByUserID p u) =
     Inr (map order_of_row
           (scanned (faults (snd (next_fault p)))
              (sort_key (\<lambda>r. - created_at_col r) (user_rows p u))))"
proof -
  obtain p1 where n: "next_fault p = (None, p1)" using assms by (cases "next_fault p") auto
  from next_fault_tables[OF n] have "orders p1 = orders p" by simp
  with n show ?thesis
    by (simp add: FindByUserID_def Query_orders_by_user_def case_prod_unfold scan_orders_scanned
          user_rows_def)
qed

lemma FindByUserID_shape:
  "fst (FindByUserID p u) = Inr found \<Longrightarrow> \<exists>rows. found = map order_of_row rows"
  by (auto simp: FindByUserID_def case_prod_unfold scan_orders_scanned split: sum.splits)

lemma ListOrders_of_FindByUserID: "fst (ListOrders p u) = fst (FindByUserID p u)"
  by (cases "FindByUserID p u") (auto simp: ListOrders_def split: sum.splits)

lemma sorted_newest_first:
  "sorted_wrt (\<lambda>a b. created_at_col b \<le> created_at_col a) (sort_key (\<lambda>r. - created_at_col r) rows)"
proof -
  have "sorted (map (\<lambda>r. - created_at_col r) (sort_key (\<lambda>r. - created_at_col r) rows))"
    by (rule sorted_sort_key)
  then show ?thesis by (simp add: sorted_map)
qed

lemma sorted_wrt_orders_of_rows:
  "sorted_wrt (\<lambda>a b. created_at_col b \<le> created_at_col a) rows \<Longrightarrow>
   sorted_wrt (\<lambda>a b. CreatedAt b \<le> CreatedAt a) (map order_of_row rows)"
  by (simp add: sorted_wrt_map order_of_row_def)


subsection \<open>FindByID and GetOrder\<close>

lemma FindByID_unknown:
  assumes "fst (next_fault p) = None"
      and "ident \<notin> set (map (\<lambda>r. Itoa (id_col r)) (orders p))"
  shows "fst (FindByID p ident) = Inl ErrNotFound"
proof -
  obtain p1 where n: "next_fault p = (None, p1)" using assms(1) by (cases "next_fault p") auto
  from next_fault_tables[OF n] have o: "orders p1 = orders p" by simp
  have "filter (\<lambda>r. Itoa (id_col r) = ident) (orders p) = []"
    using assms(2) by (auto simp: filter_empty_conv)
  with n o show ?thesis by (simp add: FindByID_def QueryRow_order_def)
qed

lemma FindByID_error_shape:
  "fst (FindByID p ident) = Inl err \<Longrightarrow> err = ErrNotFound \<or> (\<exists>e. err = Pgx e)"
  by (auto simp: FindByID_def Let_def case_prod_unfold split: sum.splits if_splits)

lemma FindByID_query_fault:
  "faults p = Some e # fs \<Longrightarrow>
   fst (FindByID p ident) = (if e = ErrNoRows then Inl ErrNotFound else Inl (Pgx e))"
  by (simp add: FindByID_def QueryRow_order_def)

lemma FindByID_found:
  assumes "faults p = []"
      and "filter (\<lambda>r. Itoa (id_col r) = ident) (orders p) = r # rs"
  shows "fst (FindByID p ident) =
     Inr ((order_of_row r)\<lparr>Items :=
        map item_of_row (filter (\<lambda>ir. order_id_col ir = id_col r) (order_items p))\<rparr>)"
  using assms
  by (simp add: FindByID_def QueryRow_order_def Query_items_def Let_def case_prod_unfold
        scan_items_scanned order_of_row_def)

lemma GetOrder_of_FindByID:
  "fst (GetOrder p ident) =
     (case fst (FindByID p ident) of
        Inl err \<Rightarrow> if errors_Is err ErrNotFound then Inl ErrOrderNotFound else Inl err
      | Inr ord \<Rightarrow> Inr ord)"
  by (cases "FindByID p ident") (auto simp: GetOrder_def split: sum.splits)


subsection \<open>Running the sample reads\<close>

lemmas read_defs =
  ListOrders_def GetOrder_def FindByUserID_def FindByID_def Query_orders_by_user_def
  QueryRow_order_def Query_items_def next_fault_def order_of_row_def item_of_row_def
  Itoa_def digits.simps Let_def

lemma stored_listing_run: "fst (ListOrders stored_pool ''1'') = Inr stored_listing"
  by (simp add: read_defs stored_pool_def stored_listing_def)

lemma stored_order_run: "fst (GetOrder stored_pool ''1'') = Inr stored_order"
  by (simp add: read_defs stored_pool_def stored_order_def)


section \<open>Properties of the handlers\<close>

subsection \<open>The aggregation handler\<close>

lemma GetShipmentByOrderID_shipment:
  "fst (GetShipmentByOrderID client net decode orderID) =
     (case net (shipping_request client orderID) of
        Response code content \<Rightarrow>
          (if code = 200 then (case decode content of Inl err \<Rightarrow> None | Inr sh \<Rightarrow> Some sh)
           else None)
      | _ \<Rightarrow> None)"
  by (simp add: GetShipmentByOrderID_def shipping_request_def split: http_reply.splits sum.splits)

lemma GetShipmentByOrderID_absent_on_error:
  "GetShipmentByOrderID client net decode orderID = (found, Some err) \<Longrightarrow> found = None"
  by (auto simp: GetShipmentByOrderID_def split: http_reply.splits sum.splits if_splits)

lemma GetOrderDetails_found:
  assumes "handler g = Some h" and "fst (GetOrder p (Param c ''id'')) = Inr ord"
  shows "status (GetOrderDetails g net decode p c) = 200 \<and>
         body (GetOrderDetails g net decode p c) =
           DetailsJSON \<lparr>Order_field = ord,
                        Shipment_field = attached_shipment g net decode (Param c ''id'')\<rparr> \<and>
         db (GetOrderDetails g net decode p c) = snd (GetOrder p (Param c ''id''))"
proof -
  obtain p1 where g: "GetOrder p (Param c ''id'') = (Inr ord, p1)"
    using assms(2) by (cases "GetOrder p (Param c ''id'')") auto
  show ?thesis
  proof (cases "shippingClient g")
    case None
    with assms(1) g show ?thesis
      by (simp add: GetOrderDetails_def Let_def attached_shipment_def)
  next
    case (Some client)
    obtain found err where s: "GetShipmentByOrderID client net decode (Param c ''id'') = (found, err)"
      by (cases "GetShipmentByOrderID client net decode (Param c ''id'')") auto
    with assms(1) g Some show ?thesis
      by (cases err) (simp_all add: GetOrderDetails_def Let_def attached_shipment_def)
  qed
qed


subsection \<open>The creation handler\<close>

lemma CreateOrder_handler_created:
  assumes "ShouldBindJSON c = Inr req" and "GetString c ''user_id'' \<noteq> []"
      and "fst (CreateOrder conv p (req\<lparr>UserID_req := GetString c ''user_id''\<rparr>)) = Inr ord"
  shows "status (CreateOrder_handler conv g net p c) = 201 \<and>
         body (CreateOrder_handler conv g net p c) = OrderJSON ord \<and>
         db (CreateOrder_handler conv g net p c) =
           snd (CreateOrder conv p (req\<lparr>UserID_req := GetString c ''user_id''\<rparr>))"
proof -
  obtain p1 where "CreateOrder conv p (req\<lparr>UserID_req := GetString c ''user_id''\<rparr>) = (Inr ord, p1)"
    using assms(3) by (cases "CreateOrder conv p (req\<lparr>UserID_req := GetString c ''user_id''\<rparr>)") auto
  with assms(1,2) show ?thesis
    by (simp add: CreateOrder_handler_def Let_def getCartClient_def split: option.splits)
qed

lemma CreateOrder_handler_independent_of_cart:
  "status (CreateOrder_handler conv g1 net1 p c) = status (CreateOrder_handler conv g2 net2 p c) \<and>
   body (CreateOrder_handler conv g1 net1 p c) = body (CreateOrder_handler conv g2 net2 p c) \<and>
   db (CreateOrder_handler conv g1 net1 p c) = db (CreateOrder_handler conv g2 net2 p c)"
  by (simp add: CreateOrder_handler_def Let_def getCartClient_def
           split: option.splits sum.splits prod.splits)

lemma CreateOrder_handler_logs_cart_failure:
  assumes "ShouldBindJSON c = Inr req" and "GetString c ''user_id'' \<noteq> []"
      and "fst (CreateOrder conv p (req\<lparr>UserID_req := GetString c ''user_id''\<rparr>)) = Inr ord"
      and "cartClient g = Some client"
      and "ClearCart client net (GetHeader c ''Authorization'') = Some err"
  shows "logs (CreateOrder_handler conv g net p c) =
           [''Order created'', ''Best-effort cart clear failed'']"
proof -
  obtain p1 where "CreateOrder conv p (req\<lparr>UserID_req := GetString c ''user_id''\<rparr>) = (Inr ord, p1)"
    using assms(3) by (cases "CreateOrder conv p (req\<lparr>UserID_req := GetString c ''user_id''\<rparr>)") auto
  with assms(1,2,4,5) show ?thesis
    by (simp add: CreateOrder_handler_def Let_def getCartClient_def)
qed

lemma CreateOrder_UserID:
  "fst (CreateOrder conv p req) = Inr ord \<Longrightarrow> UserID ord = UserID_req req"
  by (drule CreateOrder_result) (auto simp: new_order_def)

lemma CreateOrder_ignores_claimed_user:
  "CreateOrder_handler conv g net p (c\<lparr>ShouldBindJSON := Inr (req\<lparr>UserID_req := claimed\<rparr>)\<rparr>) =
   CreateOrder_handler conv g net p (c\<lparr>ShouldBindJSON := Inr req\<rparr>)"
proof (cases "GetString c ''user_id'' = []")
  case True
  then show ?thesis by (simp add: CreateOrder_handler_def GetString_def)
next
  case False
  have h: "GetHeader (c\<lparr>ShouldBindJSON := Inr (req\<lparr>UserID_req := claimed\<rparr>)\<rparr>) ''Authorization'' =
           GetHeader (c\<lparr>ShouldBindJSON := Inr req\<rparr>) ''Authorization''"
    by (simp add: GetHeader_def)
  from False show ?thesis
    unfolding CreateOrder_handler_def h by (simp add: GetString_def Let_def)
qed

lemma CreateOrder_handler_order_owner:
  assumes "body (CreateOrder_handler conv g net p c) = OrderJSON ord"
  shows "UserID ord = GetString c ''user_id'' \<and> GetString c ''user_id'' \<noteq> []"
proof (cases "ShouldBindJSON c")
  case (Inl err)
  with assms show ?thesis by (simp add: CreateOrder_handler_def)
next
  case (Inr req)
  show ?thesis
  proof (cases "GetString c ''user_id'' = []")
    case True
    with assms Inr show ?thesis by (simp add: CreateOrder_handler_def)
  next
    case False
    let ?r = "req\<lparr>UserID_req := GetString c ''user_id''\<rparr>"
    obtain res p1 where r: "CreateOrder conv p ?r = (res, p1)" by (cases "CreateOrder conv p ?r") auto
    show ?thesis
    proof (cases res)
      case (Inl err)
      with assms Inr False r show ?thesis
        by (simp add: CreateOrder_handler_def Let_def split: if_splits)
    next
      case (Inr created)
      with assms \<open>ShouldBindJSON c = Inr req\<close> False r have "created = ord"
        by (simp add: CreateOrder_handler_def Let_def getCartClient_def split: option.splits)
      with Inr r have "fst (CreateOrder conv p ?r) = Inr ord" by simp
      from CreateOrder_UserID[OF this] False show ?thesis by simp
    qed
  qed
qed

lemma create_context_facts:
  "ShouldBindJSON create_context = Inr (example_request\<lparr>UserID_req := ''mallory''\<rparr>)"
  "GetString create_context ''user_id'' = ''u1''"
  "GetHeader create_context ''Authorization'' = ''Bearer token''"
  "(example_request\<lparr>UserID_req := ''mallory''\<rparr>)\<lparr>UserID_req := ''u1''\<rparr> = example_request"
  by (simp_all add: create_context_def GetString_def GetHeader_def example_request_def)


subsection \<open>Sums of non-negative amounts\<close>

lemma foldl_nonnegative:
  fixes z :: "'f::{plus,ord}"
  assumes add: "\<And>x y. z \<le> x \<Longrightarrow> z \<le> y \<Longrightarrow> z \<le> x + y"
  shows "z \<le> s \<Longrightarrow> \<forall>x \<in> set xs. z \<le> x \<Longrightarrow> z \<le> foldl (+) s xs"
proof (induction xs arbitrary: s)
  case Nil
  then show ?case by simp
next
  case (Cons x xs)
  have "z \<le> s + x" using Cons.prems by (intro add) simp_all
  then show ?case using Cons.prems by (simp add: Cons.IH)
qed


section \<open>The claims\<close>

text \<open>
  C1. Every \<open>CreateOrder\<close> call that succeeds had a non-empty item list, and the order
  it returns has: as subtotal the sum, taken in the order of the request and starting
  at zero, of price times quantity over the requested items; shipping 5.00; total
  equal to subtotal + 5.00; status "pending"; for each item the price, quantity and
  product id of the request and as subtotal its price times its quantity; and as
  product name the requested one, or "Product <product_id>" where the request gave
  none.
\<close>

theorem CreateOrder_amounts:
  assumes "fst (CreateOrder conv p req) = Inr order"
  shows "Items_req req \<noteq> [] \<and>
         Subtotal order = foldl (+) (conv 0) (map (\<lambda>it. Price it * conv (Quantity it)) (Items_req req)) \<and>
         Shipping order = conv 5 \<and>
         Total order = Subtotal order + conv 5 \<and>
         Status order = ''pending'' \<and>
         map Subtotal_item (Items order) = map (\<lambda>it. Price it * conv (Quantity it)) (Items_req req) \<and>
         map Price (Items order) = map Price (Items_req req) \<and>
         map Quantity (Items order) = map Quantity (Items_req req) \<and>
         map ProductID (Items order) = map ProductID (Items_req req) \<and>
         list_all (\<lambda>it. Subtotal_item it = Price it * conv (Quantity it)) (Items order) \<and>
         map ProductName (Items order) =
           map (\<lambda>it. if ProductName it = [] then ''Product '' @ ProductID it else ProductName it)
             (Items_req req)"
proof -
  from CreateOrder_result[OF assms] obtain i
    where ne: "Items_req req \<noteq> []" and o: "order = (new_order conv req)\<lparr>ID := i\<rparr>" by blast
  show ?thesis
    using ne by (simp add: o new_order_def item_subtotals_def enrich_item_def list_all_iff comp_def)
qed

theorem CreateOrder_amounts_witness:
  "fst (CreateOrder real_of_int example_pool example_request) = Inr example_order \<and>
   Subtotal example_order = 10 * 2 + 5 * 1 \<and>
   Shipping example_order = 5 \<and>
   Total example_order = 25 + 5 \<and>
   Status example_order = ''pending'' \<and>
   map Subtotal_item (Items example_order) = [20, 5] \<and>
   map ProductName (Items example_order) = [''Product p1'', ''Product p2'']"
proof -
  have "Subtotal example_order = 10 * 2 + 5 * 1 \<and>
   Shipping example_order = 5 \<and>
   Total example_order = 25 + 5 \<and>
   Status example_order = ''pending'' \<and>
   map Subtotal_item (Items example_order) = [20, 5] \<and>
   map ProductName (Items example_order) = [''Product p1'', ''Product p2'']"
    using CreateOrder_amounts[OF example_run] by (simp add: example_request_def)
  with example_run show ?thesis by simp
qed


text \<open>
  C2. \<open>CreateOrder\<close> on a request with no items fails with \<open>ErrInvalidOrder\<close> and
  leaves the database as it was: tables, sequence, fault script and transaction log
  are untouched, so no transaction was begun or committed, no call reached the
  driver and nothing was written. The creation handler, given such a request from an
  authenticated user, answers 400 "Invalid order" and leaves the database as it was.
\<close>

theorem CreateOrder_empty:
  assumes "Items_req req = []"
  shows "fst (CreateOrder conv p req) = Inl ErrInvalidOrder \<and>
         snd (CreateOrder conv p req) = p \<and>
         tx_log (snd (CreateOrder conv p req)) = tx_log p \<and>
         orders (snd (CreateOrder conv p req)) = orders p \<and>
         order_items (snd (CreateOrder conv p req)) = order_items p \<and>
         faults (snd (CreateOrder conv p req)) = faults p \<and>
         (ShouldBindJSON c = Inr req \<and> GetString c ''user_id'' \<noteq> [] \<longrightarrow>
            status (CreateOrder_handler conv g net p c) = 400 \<and>
            body (CreateOrder_handler conv g net p c) = ErrorJSON ''Invalid order'' \<and>
            logs (CreateOrder_handler conv g net p c) = [''Failed to create order''] \<and>
            db (CreateOrder_handler conv g net p c) = p)"
proof -
  have r: "CreateOrder conv p req = (Inl ErrInvalidOrder, p)"
    using assms by (simp add: CreateOrder_def)
  have "Items_req (req\<lparr>UserID_req := GetString c ''user_id''\<rparr>) = []"
    using assms by simp
  then have r': "CreateOrder conv p (req\<lparr>UserID_req := GetString c ''user_id''\<rparr>) =
                   (Inl ErrInvalidOrder, p)"
    by (simp add: CreateOrder_def)
  have same: "errors_Is ErrInvalidOrder ErrInvalidOrder" by (simp add: ErrInvalidOrder_def)
  have h: "ShouldBindJSON c = Inr req \<and> GetString c ''user_id'' \<noteq> [] \<longrightarrow>
            status (CreateOrder_handler conv g net p c) = 400 \<and>
            body (CreateOrder_handler conv g net p c) = ErrorJSON ''Invalid order'' \<and>
            logs (CreateOrder_handler conv g net p c) = [''Failed to create order''] \<and>
            db (CreateOrder_handler conv g net p c) = p"
    using r' same by (simp add: CreateOrder_handler_def Let_def)
  from r h show ?thesis by simp
qed

theorem CreateOrder_empty_witness:
  "CreateOrder real_of_int stored_pool empty_request = (Inl ErrInvalidOrder, stored_pool) \<and>
   status (CreateOrder_handler real_of_int wired net_404 stored_pool
             (create_context\<lparr>ShouldBindJSON := Inr empty_request\<rparr>)) = 400 \<and>
   db (CreateOrder_handler real_of_int wired net_404 stored_pool
         (create_context\<lparr>ShouldBindJSON := Inr empty_request\<rparr>)) = stored_pool"
proof -
  let ?c = "create_context\<lparr>ShouldBindJSON := Inr empty_request\<rparr>"
  have e: "Items_req empty_request = []" by (simp add: empty_request_def)
  have c: "ShouldBindJSON ?c = Inr empty_request \<and> GetString ?c ''user_id'' \<noteq> []"
    by (simp add: create_context_def GetString_def)
  note t = CreateOrder_empty[OF e, of real_of_int stored_pool ?c wired net_404]
  from t have a: "CreateOrder real_of_int stored_pool empty_request = (Inl ErrInvalidOrder, stored_pool)"
    by (simp add: prod_eq_iff)
  from t c have b: "status (CreateOrder_handler real_of_int wired net_404 stored_pool ?c) = 400"
    "db (CreateOrder_handler real_of_int wired net_404 stored_pool ?c) = stored_pool"
    by blast+
  from a b show ?thesis by simp
qed


text \<open>
  C3. When the transaction has begun and a later step fails (the insert of the order
  row, the insert of any item, or the commit: call number \<open>k\<close> after the begin, for
  \<open>k\<close> from 1 to the number of items plus 2), \<open>CreateOrder\<close> returns that error and
  the transaction ends without a commit: when an insert fails (\<open>k\<close> up to the number
  of items plus 1) the deferred rollback rolls it back; when the commit fails (\<open>k\<close>
  the number of items plus 2) the failed commit has closed it and the deferred
  rollback finds nothing to do. In both cases no commit is recorded, the committed
  tables are what they were, and every later read by id or by user answers as it
  would have before the call.
\<close>

theorem CreateOrder_rolls_back:
  assumes "Items_req req \<noteq> []"
      and "faults p = replicate k None @ Some e # rest"
      and "1 \<le> k" and "k \<le> length (Items_req req) + 2"
  shows "fst (CreateOrder conv p req) = Inl (Pgx e) \<and>
         orders (snd (CreateOrder conv p req)) = orders p \<and>
         order_items (snd (CreateOrder conv p req)) = order_items p \<and>
         tx_log (snd (CreateOrder conv p req)) =
           tx_log p @ (if k \<le> length (Items_req req) + 1 then [TxBegin, TxRollback]
                       else [TxBegin]) \<and>
         TxCommit \<notin> set (drop (length (tx_log p)) (tx_log (snd (CreateOrder conv p req)))) \<and>
         fst (FindByID ((snd (CreateOrder conv p req))\<lparr>faults := fs\<rparr>) ident) =
           fst (FindByID (p\<lparr>faults := fs\<rparr>) ident) \<and>
         fst (FindByUserID ((snd (CreateOrder conv p req))\<lparr>faults := fs\<rparr>) u) =
           fst (FindByUserID (p\<lparr>faults := fs\<rparr>) u)"
proof -
  let ?q = "snd (CreateOrder conv p req)"
  from CreateOrder_fails_with[OF assms]
  have r: "fst (CreateOrder conv p req) = Inl (Pgx e)"
    and l: "tx_log ?q = tx_log p @ (if k \<le> length (Items_req req) + 1
                                     then [TxBegin, TxRollback] else [TxBegin])"
    by simp_all
  from CreateOrder_failure[OF r]
  have t: "orders ?q = orders p" "order_items ?q = order_items p" by simp_all
  have n: "TxCommit \<notin> set (drop (length (tx_log p)) (tx_log ?q))"
    unfolding l by simp
  have a: "fst (FindByID (?q\<lparr>faults := fs\<rparr>) ident) = fst (FindByID (p\<lparr>faults := fs\<rparr>) ident)"
    using t by (intro FindByID_same) simp_all
  have b: "fst (FindByUserID (?q\<lparr>faults := fs\<rparr>) u) = fst (FindByUserID (p\<lparr>faults := fs\<rparr>) u)"
    using t by (intro FindByUserID_same) simp_all
  from r t l n a b show ?thesis by simp
qed

theorem CreateOrder_rolls_back_witness:
  "fst (CreateOrder real_of_int failing_pool example_request) = Inl (Pgx (PgError ''23514'')) \<and>
   orders (snd (CreateOrder real_of_int failing_pool example_request)) = [] \<and>
   order_items (snd (CreateOrder real_of_int failing_pool example_request)) = [] \<and>
   tx_log (snd (CreateOrder real_of_int failing_pool example_request)) = [TxBegin, TxRollback] \<and>
   fst (FindByID ((snd (CreateOrder real_of_int failing_pool example_request))\<lparr>faults := []\<rparr>) ''1'')
     = Inl ErrNotFound \<and>
   fst (CreateOrder real_of_int commit_failing_pool example_request) =
     Inl (Pgx (PgError ''40001'')) \<and>
   orders (snd (CreateOrder real_of_int commit_failing_pool example_request)) = [] \<and>
   order_items (snd (CreateOrder real_of_int commit_failing_pool example_request)) = [] \<and>
   tx_log (snd (CreateOrder real_of_int commit_failing_pool example_request)) = [TxBegin] \<and>
   fst (FindByID ((snd (CreateOrder real_of_int commit_failing_pool example_request))
                    \<lparr>faults := []\<rparr>) ''1'')
     = Inl ErrNotFound"
proof -
  have ne: "Items_req example_request \<noteq> []" by (simp add: example_request_def)
  have n: "length (Items_req example_request) = 2" by (simp add: example_request_def)
  have f: "faults failing_pool = replicate 3 None @ Some (PgError ''23514'') # []"
    by (simp add: failing_pool_def example_pool_def eval_nat_numeral)
  have k: "(3::nat) \<le> length (Items_req example_request) + 2" by (simp add: n)
  have old: "fst (FindByID (failing_pool\<lparr>faults := []\<rparr>) ''1'') = Inl ErrNotFound"
    by (simp add: FindByID_def QueryRow_order_def next_fault_def failing_pool_def example_pool_def)
  from CreateOrder_rolls_back[OF ne f _ k, of real_of_int "[]" "''1''"] old
  have a: "fst (CreateOrder real_of_int failing_pool example_request) = Inl (Pgx (PgError ''23514'')) \<and>
   orders (snd (CreateOrder real_of_int failing_pool example_request)) = [] \<and>
   order_items (snd (CreateOrder real_of_int failing_pool example_request)) = [] \<and>
   tx_log (snd (CreateOrder real_of_int failing_pool example_request)) = [TxBegin, TxRollback] \<and>
   fst (FindByID ((snd (CreateOrder real_of_int failing_pool example_request))\<lparr>faults := []\<rparr>) ''1'')
     = Inl ErrNotFound"
    by (simp add: n failing_pool_def example_pool_def)
  have f': "faults commit_failing_pool = replicate 4 None @ Some (PgError ''40001'') # []"
    by (simp add: commit_failing_pool_def example_pool_def eval_nat_numeral)
  have k': "(4::nat) \<le> length (Items_req example_request) + 2" by (simp add: n)
  have old': "fst (FindByID (commit_failing_pool\<lparr>faults := []\<rparr>) ''1'') = Inl ErrNotFound"
    by (simp add: FindByID_def QueryRow_order_def next_fault_def commit_failing_pool_def
          example_pool_def)
  from CreateOrder_rolls_back[OF ne f' _ k', of real_of_int "[]" "''1''"] old'
  have b: "fst (CreateOrder real_of_int commit_failing_pool example_request) =
     Inl (Pgx (PgError ''40001'')) \<and>
   orders (snd (CreateOrder real_of_int commit_failing_pool example_request)) = [] \<and>
   order_items (snd (CreateOrder real_of_int commit_failing_pool example_request)) = [] \<and>
   tx_log (snd (CreateOrder real_of_int commit_failing_pool example_request)) = [TxBegin] \<and>
   fst (FindByID ((snd (CreateOrder real_of_int commit_failing_pool example_request))
                    \<lparr>faults := []\<rparr>) ''1'')
     = Inl ErrNotFound"
    by (simp add: n commit_failing_pool_def example_pool_def)
  from a b show ?thesis by simp
qed

text \<open>
  C5. \<open>GetOrder\<close> on an id that no committed order row carries answers
  \<open>ErrOrderNotFound\<close> when the query goes through, and also when the driver reports
  "no rows"; whatever happens, it never returns the store's own \<open>ErrNotFound\<close>, bare or
  wrapped; and every other failure of the store (a failing order query, a failing
  item query) is returned as the store gave it.
\<close>

theorem GetOrder_not_found:
  "(fst (next_fault p) = None \<and> ident \<notin> set (map (\<lambda>r. Itoa (id_col r)) (orders p)) \<longrightarrow>
      fst (GetOrder p ident) = Inl ErrOrderNotFound) \<and>
   (\<forall>fs. faults p = Some ErrNoRows # fs \<longrightarrow> fst (GetOrder p ident) = Inl ErrOrderNotFound) \<and>
   (\<forall>err. fst (GetOrder p ident) = Inl err \<longrightarrow> \<not> errors_Is err ErrNotFound) \<and>
   (\<forall>err. fst (FindByID p ident) = Inl err \<and> err \<noteq> ErrNotFound \<longrightarrow>
      fst (GetOrder p ident) = Inl err) \<and>
   (\<forall>e fs. faults p = Some e # fs \<and> e \<noteq> ErrNoRows \<longrightarrow> fst (GetOrder p ident) = Inl (Pgx e))"
proof (intro conjI allI impI)
  assume "fst (next_fault p) = None \<and> ident \<notin> set (map (\<lambda>r. Itoa (id_col r)) (orders p))"
  then have "fst (FindByID p ident) = Inl ErrNotFound" by (intro FindByID_unknown) simp_all
  then show "fst (GetOrder p ident) = Inl ErrOrderNotFound" by (simp add: GetOrder_of_FindByID)
next
  fix fs assume "faults p = Some ErrNoRows # fs"
  then show "fst (GetOrder p ident) = Inl ErrOrderNotFound"
    by (simp add: GetOrder_of_FindByID FindByID_query_fault)
next
  fix err assume a: "fst (GetOrder p ident) = Inl err"
  show "\<not> errors_Is err ErrNotFound"
  proof (cases "fst (FindByID p ident)")
    case (Inl e0)
    from FindByID_error_shape[OF Inl] a Inl show ?thesis
      by (auto simp: GetOrder_of_FindByID split: if_splits)
  next
    case (Inr ord)
    with a show ?thesis by (simp add: GetOrder_of_FindByID)
  qed
next
  fix err assume a: "fst (FindByID p ident) = Inl err \<and> err \<noteq> ErrNotFound"
  with FindByID_error_shape[of p ident err] show "fst (GetOrder p ident) = Inl err"
    by (auto simp: GetOrder_of_FindByID)
next
  fix e fs assume "faults p = Some e # fs \<and> e \<noteq> ErrNoRows"
  then show "fst (GetOrder p ident) = Inl (Pgx e)"
    by (simp add: GetOrder_of_FindByID FindByID_query_fault)
qed

theorem GetOrder_not_found_witness:
  "fst (GetOrder stored_pool ''42'') = Inl ErrOrderNotFound \<and>
   fst (GetOrder (stored_pool\<lparr>faults := [Some ErrNoRows]\<rparr>) ''1'') = Inl ErrOrderNotFound \<and>
   fst (GetOrder (stored_pool\<lparr>faults := [Some (PgError ''08006'')]\<rparr>) ''1'') =
     Inl (Pgx (PgError ''08006'')) \<and>
   fst (GetOrder (stored_pool\<lparr>faults := [None, Some (PgError ''08006'')]\<rparr>) ''1'') =
     Inl (Pgx (PgError ''08006''))"
proof -
  have n: "fst (next_fault stored_pool) = None" by (simp add: stored_pool_def next_fault_def)
  have u: "''42'' \<notin> set (map (\<lambda>r. Itoa (id_col r)) (orders stored_pool))"
    by (simp add: stored_pool_def Itoa_def digits.simps)
  from GetOrder_not_found[of stored_pool "''42''"] n u
  have a: "fst (GetOrder stored_pool ''42'') = Inl ErrOrderNotFound" by blast
  from GetOrder_not_found[of "stored_pool\<lparr>faults := [Some ErrNoRows]\<rparr>" "''1''"]
  have b: "fst (GetOrder (stored_pool\<lparr>faults := [Some ErrNoRows]\<rparr>) ''1'') = Inl ErrOrderNotFound"
    by simp
  from GetOrder_not_found[of "stored_pool\<lparr>faults := [Some (PgError ''08006'')]\<rparr>" "''1''"]
  have c: "fst (GetOrder (stored_pool\<lparr>faults := [Some (PgError ''08006'')]\<rparr>) ''1'') =
     Inl (Pgx (PgError ''08006''))"
    by simp
  let ?q = "stored_pool\<lparr>faults := [None, Some (PgError ''08006'')]\<rparr>"
  have "fst (FindByID ?q ''1'') = Inl (Pgx (PgError ''08006''))"
    by (simp add: read_defs stored_pool_def)
  with GetOrder_not_found[of ?q "''1''"]
  have d: "fst (GetOrder ?q ''1'') = Inl (Pgx (PgError ''08006''))" by simp
  from a b c d show ?thesis by simp
qed


text \<open>
  C9. \<open>ListOrders\<close> returns what the repository returns, result or error, unchanged.
  When the query fails, that is the driver's error as it is.
  When it goes through, the call returns a list, never an error: only orders of the
  user asked for, each built from one of the user's committed rows, in descending
  order of creation time; the empty list when the user has no order. When no call
  fails at all, the list holds exactly the user's orders.
\<close>

theorem ListOrders_newest_first:
  "fst (ListOrders p u) = fst (FindByUserID p u) \<and>
   (\<forall>e fs. faults p = Some e # fs \<longrightarrow> fst (ListOrders p u) = Inl (Pgx e)) \<and>
   (fst (next_fault p) = None \<longrightarrow>
      (\<exists>found. fst (ListOrders p u) = Inr found \<and>
         sorted_wrt (\<lambda>a b. CreatedAt b \<le> CreatedAt a) found \<and>
         (\<forall>ord \<in> set found. UserID ord = u) \<and>
         set found \<subseteq> order_of_row ` set (user_rows p u) \<and>
         (user_rows p u = [] \<longrightarrow> found = []))) \<and>
   (faults p = [] \<longrightarrow>
      (\<exists>found. fst (ListOrders p u) = Inr found \<and>
         mset found = mset (map order_of_row (user_rows p u))))"
proof (intro conjI allI impI)
  show "fst (ListOrders p u) = fst (FindByUserID p u)"
    by (rule ListOrders_of_FindByUserID)
next
  fix e fs assume "faults p = Some e # fs"
  then show "fst (ListOrders p u) = Inl (Pgx e)"
    by (simp add: ListOrders_def FindByUserID_fault)
next
  assume a: "fst (next_fault p) = None"
  let ?rows = "scanned (faults (snd (next_fault p))) (sort_key (\<lambda>r. - created_at_col r) (user_rows p u))"
  let ?found = "map order_of_row ?rows"
  have f: "fst (FindByUserID p u) = Inr ?found" by (rule FindByUserID_rows[OF a])
  then have l: "fst (ListOrders p u) = Inr ?found"
    by (cases "FindByUserID p u") (auto simp: ListOrders_def split: sum.splits)
  have sub: "set ?rows \<subseteq> set (user_rows p u)"
    using set_scanned[of _ "sort_key (\<lambda>r. - created_at_col r) (user_rows p u)"] by simp
  have s: "sorted_wrt (\<lambda>a b. CreatedAt b \<le> CreatedAt a) ?found"
    by (intro sorted_wrt_orders_of_rows sorted_wrt_scanned sorted_newest_first)
  have us: "\<forall>ord \<in> set ?found. UserID ord = u"
    using sub by (auto simp: user_rows_def order_of_row_def)
  have e: "user_rows p u = [] \<longrightarrow> ?found = []" by simp
  from l s us sub e
  show "\<exists>found. fst (ListOrders p u) = Inr found \<and>
         sorted_wrt (\<lambda>a b. CreatedAt b \<le> CreatedAt a) found \<and>
         (\<forall>ord \<in> set found. UserID ord = u) \<and>
         set found \<subseteq> order_of_row ` set (user_rows p u) \<and>
         (user_rows p u = [] \<longrightarrow> found = [])"
    by (intro exI[of _ ?found]) auto
next
  assume a: "faults p = []"
  then have n: "fst (next_fault p) = None" "snd (next_fault p) = p" by simp_all
  from FindByUserID_rows[OF n(1), of u] n(2) a
  have f: "fst (FindByUserID p u) = Inr (map order_of_row (sort_key (\<lambda>r. - created_at_col r) (user_rows p u)))"
    by simp
  then have "fst (ListOrders p u) = Inr (map order_of_row (sort_key (\<lambda>r. - created_at_col r) (user_rows p u)))"
    by (cases "FindByUserID p u") (auto simp: ListOrders_def split: sum.splits)
  then show "\<exists>found. fst (ListOrders p u) = Inr found \<and>
         mset found = mset (map order_of_row (user_rows p u))"
    by simp
qed

theorem ListOrders_newest_first_witness:
  "fst (ListOrders stored_pool ''1'') = Inr stored_listing \<and>
   sorted_wrt (\<lambda>a b. CreatedAt b \<le> CreatedAt a) stored_listing \<and>
   map CreatedAt stored_listing = [300, 100] \<and>
   fst (ListOrders stored_pool ''nobody'') = Inr [] \<and>
   fst (ListOrders (stored_pool\<lparr>faults := [Some (PgError ''57014'')]\<rparr>) ''1'') =
     Inl (Pgx (PgError ''57014''))"
proof -
  have n: "fst (next_fault stored_pool) = None" by (simp add: stored_pool_def next_fault_def)
  have none: "user_rows stored_pool ''nobody'' = []" by (simp add: user_rows_def stored_pool_def)
  have f: "faults (stored_pool\<lparr>faults := [Some (PgError ''57014'')]\<rparr>) = Some (PgError ''57014'') # []"
    by simp
  from ListOrders_newest_first[of stored_pool "''1''"] n stored_listing_run
  have a: "sorted_wrt (\<lambda>a b. CreatedAt b \<le> CreatedAt a) stored_listing" by auto
  from ListOrders_newest_first[of stored_pool "''nobody''"] n none
  have b: "fst (ListOrders stored_pool ''nobody'') = Inr []" by auto
  from ListOrders_newest_first[of "stored_pool\<lparr>faults := [Some (PgError ''57014'')]\<rparr>" "''1''"] f
  have c: "fst (ListOrders (stored_pool\<lparr>faults := [Some (PgError ''57014'')]\<rparr>) ''1'') =
     Inl (Pgx (PgError ''57014''))" by blast
  have d: "map CreatedAt stored_listing = [300, 100]" by (simp add: stored_listing_def)
  from stored_listing_run a b c d show ?thesis by simp
qed


text \<open>
  C10. Every order that \<open>ListOrders\<close> returns has an empty item list. \<open>GetOrder\<close>, when
  no call fails, attaches the item rows of the order it finds; so for an order with
  at least one item row, the order it returns differs in its items from every order
  that \<open>ListOrders\<close> returns, the listing of that same order included.
\<close>

theorem ListOrders_without_items:
  "(\<forall>found. fst (ListOrders p u) = Inr found \<longrightarrow> (\<forall>listed \<in> set found. Items listed = [])) \<and>
   (\<forall>r rs. faults p = [] \<and> filter (\<lambda>r. Itoa (id_col r) = ident) (orders p) = r # rs \<and>
        filter (\<lambda>ir. order_id_col ir = id_col r) (order_items p) \<noteq> [] \<longrightarrow>
      (\<exists>ord. fst (GetOrder p ident) = Inr ord \<and>
         Items ord = map item_of_row (filter (\<lambda>ir. order_id_col ir = id_col r) (order_items p)) \<and>
         Items ord \<noteq> [] \<and>
         (\<forall>found. fst (ListOrders p u) = Inr found \<longrightarrow>
            (\<forall>listed \<in> set found. Items listed \<noteq> Items ord))))"
proof (intro conjI allI impI)
  fix found assume "fst (ListOrders p u) = Inr found"
  then have "fst (FindByUserID p u) = Inr found" by (simp add: ListOrders_of_FindByUserID)
  from FindByUserID_shape[OF this] show "\<forall>listed \<in> set found. Items listed = []"
    by (auto simp: order_of_row_def)
next
  fix r rs
  assume a: "faults p = [] \<and> filter (\<lambda>r. Itoa (id_col r) = ident) (orders p) = r # rs \<and>
        filter (\<lambda>ir. order_id_col ir = id_col r) (order_items p) \<noteq> []"
  let ?items = "map item_of_row (filter (\<lambda>ir. order_id_col ir = id_col r) (order_items p))"
  let ?ord = "(order_of_row r)\<lparr>Items := ?items\<rparr>"
  from a have f: "fst (FindByID p ident) = Inr ?ord" by (intro FindByID_found) simp_all
  then have g: "fst (GetOrder p ident) = Inr ?ord" by (simp add: GetOrder_of_FindByID)
  from a have ne: "?items \<noteq> []" by simp
  have l: "\<forall>found. fst (ListOrders p u) = Inr found \<longrightarrow>
            (\<forall>listed \<in> set found. Items listed \<noteq> Items ?ord)"
  proof (intro allI impI ballI)
    fix found listed assume "fst (ListOrders p u) = Inr found" and m: "listed \<in> set found"
    then have "fst (FindByUserID p u) = Inr found" by (simp add: ListOrders_of_FindByUserID)
    from FindByUserID_shape[OF this] m have "Items listed = []"
      by (auto simp: order_of_row_def)
    with ne show "Items listed \<noteq> Items ?ord" by simp
  qed
  from g ne l
  show "\<exists>ord. fst (GetOrder p ident) = Inr ord \<and>
         Items ord = map item_of_row (filter (\<lambda>ir. order_id_col ir = id_col r) (order_items p)) \<and>
         Items ord \<noteq> [] \<and>
         (\<forall>found. fst (ListOrders p u) = Inr found \<longrightarrow>
            (\<forall>listed \<in> set found. Items listed \<noteq> Items ord))"
    by (intro exI[of _ ?ord]) simp
qed

theorem ListOrders_without_items_witness:
  "fst (ListOrders stored_pool ''1'') = Inr stored_listing \<and>
   map Items stored_listing = [[], []] \<and>
   fst (GetOrder stored_pool ''1'') = Inr stored_order \<and>
   length (Items stored_order) = 2 \<and>
   map ID stored_listing = [''2'', ID stored_order] \<and>
   Items (stored_listing ! 1) \<noteq> Items stored_order"
proof -
  note t = ListOrders_without_items[of stored_pool "''1''" "''1''"]
  from t stored_listing_run have a: "\<forall>listed \<in> set stored_listing. Items listed = []" by blast
  then have b: "map Items stored_listing = [[], []]" by (simp add: stored_listing_def)
  have f: "faults stored_pool = []" by (simp add: stored_pool_def)
  have r: "filter (\<lambda>r. Itoa (id_col r) = ''1'') (orders stored_pool) = [hd (orders stored_pool)]"
    by (simp add: stored_pool_def Itoa_def digits.simps)
  have i: "filter (\<lambda>ir. order_id_col ir = id_col (hd (orders stored_pool))) (order_items stored_pool) \<noteq> []"
    by (simp add: stored_pool_def)
  from t f r i stored_order_run stored_listing_run
  have c: "\<forall>listed \<in> set stored_listing. Items listed \<noteq> Items stored_order"
    by (metis Inr_inject)
  then have d: "Items (stored_listing ! 1) \<noteq> Items stored_order" by (simp add: stored_listing_def)
  have e: "length (Items stored_order) = 2" "map ID stored_listing = [''2'', ID stored_order]"
    by (simp_all add: stored_order_def stored_listing_def)
  from stored_listing_run stored_order_run b d e show ?thesis by simp
qed


text \<open>
  C4. When the order service is initialised and \<open>GetOrder\<close> finds the order, the
  details handler answers 200 with that order, whatever the shipping side does. The
  shipment is absent when no shipping client is set, when the request cannot be
  built, when the call fails (refused, timed out), when the status is 404 or any
  other than 200, and when the body does not decode; it is present only on a 200
  whose body decodes. The database is left as \<open>GetOrder\<close> left it.
\<close>

theorem GetOrderDetails_without_shipment:
  assumes "handler g = Some h" and "fst (GetOrder p (Param c ''id'')) = Inr ord"
  shows "status (GetOrderDetails g net decode p c) = 200 \<and>
         (\<exists>s. body (GetOrderDetails g net decode p c) =
                DetailsJSON \<lparr>Order_field = ord, Shipment_field = s\<rparr> \<and>
              (shippingClient g = None \<longrightarrow> s = None) \<and>
              (\<forall>client. shippingClient g = Some client \<longrightarrow>
                 (\<forall>err. net (shipping_request client (Param c ''id'')) = NewRequestError err
                    \<longrightarrow> s = None) \<and>
                 (\<forall>err. net (shipping_request client (Param c ''id'')) = DoError err
                    \<longrightarrow> s = None) \<and>
                 (\<forall>code content.
                    net (shipping_request client (Param c ''id'')) = Response code content \<and>
                    code \<noteq> 200 \<longrightarrow> s = None) \<and>
                 (\<forall>content err.
                    net (shipping_request client (Param c ''id'')) = Response 200 content \<and>
                    decode content = Inl err \<longrightarrow> s = None) \<and>
                 (\<forall>content sh.
                    net (shipping_request client (Param c ''id'')) = Response 200 content \<and>
                    decode content = Inr sh \<longrightarrow> s = Some sh))) \<and>
         db (GetOrderDetails g net decode p c) = snd (GetOrder p (Param c ''id''))"
proof -
  let ?s = "attached_shipment g net decode (Param c ''id'')"
  let ?P = "\<lambda>s. (shippingClient g = None \<longrightarrow> s = None) \<and>
              (\<forall>client. shippingClient g = Some client \<longrightarrow>
                 (\<forall>err. net (shipping_request client (Param c ''id'')) = NewRequestError err
                    \<longrightarrow> s = None) \<and>
                 (\<forall>err. net (shipping_request client (Param c ''id'')) = DoError err
                    \<longrightarrow> s = None) \<and>
                 (\<forall>code content.
                    net (shipping_request client (Param c ''id'')) = Response code content \<and>
                    code \<noteq> 200 \<longrightarrow> s = None) \<and>
                 (\<forall>content err.
                    net (shipping_request client (Param c ''id'')) = Response 200 content \<and>
                    decode content = Inl err \<longrightarrow> s = None) \<and>
                 (\<forall>content sh.
                    net (shipping_request client (Param c ''id'')) = Response 200 content \<and>
                    decode content = Inr sh \<longrightarrow> s = Some sh))"
  from GetOrderDetails_found[OF assms, of net decode]
  have st: "status (GetOrderDetails g net decode p c) = 200"
    and bd: "body (GetOrderDetails g net decode p c) =
               DetailsJSON \<lparr>Order_field = ord, Shipment_field = ?s\<rparr>"
    and d: "db (GetOrderDetails g net decode p c) = snd (GetOrder p (Param c ''id''))"
    by simp_all
  have h: "?P ?s"
    by (auto simp: attached_shipment_def GetShipmentByOrderID_shipment)
  have "\<exists>s. body (GetOrderDetails g net decode p c) =
              DetailsJSON \<lparr>Order_field = ord, Shipment_field = s\<rparr> \<and> ?P s"
    by (rule exI[of _ ?s]) (rule conjI[OF bd h])
  with st d show ?thesis by simp
qed

theorem GetOrderDetails_without_shipment_witness:
  "status (GetOrderDetails wired net_404 no_decode stored_pool details_context) = 200 \<and>
   body (GetOrderDetails wired net_404 no_decode stored_pool details_context) =
     DetailsJSON \<lparr>Order_field = stored_order, Shipment_field = None\<rparr> \<and>
   status (GetOrderDetails wired net_timeout no_decode stored_pool details_context) = 200 \<and>
   body (GetOrderDetails wired net_timeout no_decode stored_pool details_context) =
     DetailsJSON \<lparr>Order_field = stored_order, Shipment_field = None\<rparr>"
proof -
  let ?client = "\<lparr>baseURL = ''http://shipping:8080''\<rparr>"
  have h: "handler wired = Some \<lparr>orderService = NewOrderService\<rparr>" by (simp add: wired_def)
  have i: "Param details_context ''id'' = ''1''" by (simp add: Param_def details_context_def)
  have o: "fst (GetOrder stored_pool (Param details_context ''id'')) = Inr stored_order"
    using stored_order_run i by simp
  have sc: "shippingClient wired = Some ?client" by (simp add: wired_def)
  have n1: "net_404 (shipping_request ?client (Param details_context ''id'')) = Response 404 []"
    by (simp add: net_404_def)
  have n2: "net_timeout (shipping_request ?client (Param details_context ''id'')) =
              DoError (ErrorString ''context deadline exceeded'')"
    by (simp add: net_timeout_def)
  from GetOrderDetails_without_shipment[OF h o, of net_404 no_decode] sc n1
  have a: "status (GetOrderDetails wired net_404 no_decode stored_pool details_context) = 200 \<and>
           body (GetOrderDetails wired net_404 no_decode stored_pool details_context) =
             DetailsJSON \<lparr>Order_field = stored_order, Shipment_field = None\<rparr>"
    by auto
  from GetOrderDetails_without_shipment[OF h o, of net_timeout no_decode] sc n2
  have b: "status (GetOrderDetails wired net_timeout no_decode stored_pool details_context) = 200 \<and>
           body (GetOrderDetails wired net_timeout no_decode stored_pool details_context) =
             DetailsJSON \<lparr>Order_field = stored_order, Shipment_field = None\<rparr>"
    by auto
  from a b show ?thesis by simp
qed


text \<open>
  C6, as amended. The user id in the payload has no effect on the creation handler:
  two contexts that differ only there give the same outcome. An order in the response
  carries the user id of the request context, which is then not empty. When the body
  binds and the context holds no user id, the answer is 401 and the database is
  untouched. When the body does not bind, the answer is 400 whether or not a user id
  is present, and the database is untouched.
\<close>

theorem CreateOrder_handler_identity:
  "CreateOrder_handler conv g net p (c\<lparr>ShouldBindJSON := Inr (req\<lparr>UserID_req := claimed\<rparr>)\<rparr>) =
     CreateOrder_handler conv g net p (c\<lparr>ShouldBindJSON := Inr req\<rparr>) \<and>
   (\<forall>ord. body (CreateOrder_handler conv g net p c) = OrderJSON ord \<longrightarrow>
      UserID ord = GetString c ''user_id'' \<and> GetString c ''user_id'' \<noteq> []) \<and>
   (\<forall>bound. ShouldBindJSON c = Inr bound \<and> GetString c ''user_id'' = [] \<longrightarrow>
      status (CreateOrder_handler conv g net p c) = 401 \<and>
      body (CreateOrder_handler conv g net p c) = ErrorJSON ''Authentication required'' \<and>
      db (CreateOrder_handler conv g net p c) = p) \<and>
   (\<forall>err. ShouldBindJSON c = Inl err \<longrightarrow>
      status (CreateOrder_handler conv g net p c) = 400 \<and>
      db (CreateOrder_handler conv g net p c) = p)"
proof (intro conjI allI impI)
  show "CreateOrder_handler conv g net p (c\<lparr>ShouldBindJSON := Inr (req\<lparr>UserID_req := claimed\<rparr>)\<rparr>) =
     CreateOrder_handler conv g net p (c\<lparr>ShouldBindJSON := Inr req\<rparr>)"
    by (rule CreateOrder_ignores_claimed_user)
next
  fix ord assume "body (CreateOrder_handler conv g net p c) = OrderJSON ord"
  from CreateOrder_handler_order_owner[OF this]
  show "UserID ord = GetString c ''user_id''" and "GetString c ''user_id'' \<noteq> []" by simp_all
next
  fix bound assume a: "ShouldBindJSON c = Inr bound \<and> GetString c ''user_id'' = []"
  then show "status (CreateOrder_handler conv g net p c) = 401"
    and "body (CreateOrder_handler conv g net p c) = ErrorJSON ''Authentication required''"
    and "db (CreateOrder_handler conv g net p c) = p"
    by (simp_all add: CreateOrder_handler_def)
next
  fix err assume "ShouldBindJSON c = Inl err"
  then show "status (CreateOrder_handler conv g net p c) = 400"
    and "db (CreateOrder_handler conv g net p c) = p"
    by (simp_all add: CreateOrder_handler_def)
qed

theorem CreateOrder_handler_identity_witness:
  "CreateOrder_handler real_of_int wired net_404 example_pool
     (create_context\<lparr>ShouldBindJSON := Inr (example_request\<lparr>UserID_req := ''mallory''\<rparr>)\<rparr>) =
   CreateOrder_handler real_of_int wired net_404 example_pool
     (create_context\<lparr>ShouldBindJSON := Inr example_request\<rparr>) \<and>
   body (CreateOrder_handler real_of_int wired net_404 example_pool create_context) =
     OrderJSON example_order \<and>
   UserID example_order = ''u1'' \<and>
   status (CreateOrder_handler real_of_int wired net_404 example_pool
             (create_context\<lparr>Keys := Map.empty\<rparr>)) = 401 \<and>
   db (CreateOrder_handler real_of_int wired net_404 example_pool
         (create_context\<lparr>Keys := Map.empty\<rparr>)) = example_pool \<and>
   status (CreateOrder_handler real_of_int wired net_404 example_pool malformed_context) = 400 \<and>
   db (CreateOrder_handler real_of_int wired net_404 example_pool malformed_context) = example_pool"
proof -
  let ?H = "CreateOrder_handler real_of_int wired net_404 example_pool"
  have ok: "fst (CreateOrder real_of_int example_pool
                  ((example_request\<lparr>UserID_req := ''mallory''\<rparr>)
                     \<lparr>UserID_req := GetString create_context ''user_id''\<rparr>)) = Inr example_order"
    using example_run by (simp add: create_context_facts)
  have ne: "GetString create_context ''user_id'' \<noteq> []" by (simp add: create_context_facts)
  from CreateOrder_handler_created[OF create_context_facts(1) ne ok, of wired net_404]
  have bd: "body (?H create_context) = OrderJSON example_order" by simp
  note t1 = CreateOrder_handler_identity[where conv = real_of_int and g = wired and net = net_404
              and p = example_pool and c = create_context and req = example_request
              and claimed = "''mallory''"]
  from t1 have a: "?H (create_context\<lparr>ShouldBindJSON := Inr (example_request\<lparr>UserID_req := ''mallory''\<rparr>)\<rparr>) =
                   ?H (create_context\<lparr>ShouldBindJSON := Inr example_request\<rparr>)" by blast
  from t1 bd have b: "UserID example_order = ''u1''" by (simp add: create_context_facts)
  have anon: "ShouldBindJSON (create_context\<lparr>Keys := Map.empty\<rparr>) =
                Inr (example_request\<lparr>UserID_req := ''mallory''\<rparr>) \<and>
              GetString (create_context\<lparr>Keys := Map.empty\<rparr>) ''user_id'' = []"
    by (simp add: create_context_def GetString_def)
  from CreateOrder_handler_identity[where conv = real_of_int and g = wired and net = net_404
         and p = example_pool and c = "create_context\<lparr>Keys := Map.empty\<rparr>"
         and req = example_request and claimed = "''mallory''"] anon
  have c: "status (?H (create_context\<lparr>Keys := Map.empty\<rparr>)) = 401"
          "db (?H (create_context\<lparr>Keys := Map.empty\<rparr>)) = example_pool" by blast+
  have m: "ShouldBindJSON malformed_context = Inl (ErrorString ''unexpected EOF'')"
    by (simp add: malformed_context_def)
  from CreateOrder_handler_identity[where conv = real_of_int and g = wired and net = net_404
         and p = example_pool and c = malformed_context
         and req = example_request and claimed = "''mallory''"] m
  have d: "status (?H malformed_context) = 400" "db (?H malformed_context) = example_pool"
    by blast+
  from a bd b c d show ?thesis by simp
qed


text \<open>
  C6 as stated fails: with no user id in the context and a body that does not bind,
  the handler answers 400, not 401.
\<close>

theorem CreateOrder_handler_identity_counterexample:
  "GetString malformed_context ''user_id'' = [] \<and>
   status (CreateOrder_handler real_of_int wired net_404 example_pool malformed_context) = 400 \<and>
   status (CreateOrder_handler real_of_int wired net_404 example_pool malformed_context) \<noteq> 401 \<and>
   body (CreateOrder_handler real_of_int wired net_404 example_pool malformed_context) =
     ErrorJSON ''unexpected EOF''"
  by (simp add: CreateOrder_handler_def malformed_context_def GetString_def
        sanitizeValidationError_def)


text \<open>
  C7. Status, body and database of the creation handler do not depend on the cart
  client or on what the cart service answers. When the body binds, a user id is
  present and \<open>CreateOrder\<close> succeeds, the handler answers 201 with the created
  order and leaves the database as \<open>CreateOrder\<close> left it; a failing cart call only
  adds a log line.
\<close>

theorem CreateOrder_handler_cart_best_effort:
  "status (CreateOrder_handler conv g1 net1 p c) = status (CreateOrder_handler conv g2 net2 p c) \<and>
   body (CreateOrder_handler conv g1 net1 p c) = body (CreateOrder_handler conv g2 net2 p c) \<and>
   db (CreateOrder_handler conv g1 net1 p c) = db (CreateOrder_handler conv g2 net2 p c) \<and>
   (\<forall>req ord.
      ShouldBindJSON c = Inr req \<and> GetString c ''user_id'' \<noteq> [] \<and>
      fst (CreateOrder conv p (req\<lparr>UserID_req := GetString c ''user_id''\<rparr>)) = Inr ord \<longrightarrow>
        status (CreateOrder_handler conv g1 net1 p c) = 201 \<and>
        body (CreateOrder_handler conv g1 net1 p c) = OrderJSON ord \<and>
        db (CreateOrder_handler conv g1 net1 p c) =
          snd (CreateOrder conv p (req\<lparr>UserID_req := GetString c ''user_id''\<rparr>)) \<and>
        (\<forall>client err.
           cartClient g1 = Some client \<and>
           ClearCart client net1 (GetHeader c ''Authorization'') = Some err \<longrightarrow>
             logs (CreateOrder_handler conv g1 net1 p c) =
               [''Order created'', ''Best-effort cart clear failed'']))"
  using CreateOrder_handler_independent_of_cart[of conv g1 net1 p c g2 net2]
        CreateOrder_handler_created[of c _ conv p _ g1 net1]
        CreateOrder_handler_logs_cart_failure[of c _ conv p _ g1 _ net1]
  by blast

theorem CreateOrder_handler_cart_best_effort_witness:
  "status (CreateOrder_handler real_of_int wired net_timeout example_pool create_context) = 201 \<and>
   body (CreateOrder_handler real_of_int wired net_timeout example_pool create_context) =
     OrderJSON example_order \<and>
   logs (CreateOrder_handler real_of_int wired net_timeout example_pool create_context) =
     [''Order created'', ''Best-effort cart clear failed''] \<and>
   tx_log (db (CreateOrder_handler real_of_int wired net_timeout example_pool create_context)) =
     [TxBegin, TxCommit] \<and>
   map id_col
     (orders (db (CreateOrder_handler real_of_int wired net_timeout example_pool create_context))) =
     [1] \<and>
   status (CreateOrder_handler real_of_int (wired\<lparr>cartClient := None\<rparr>) net_404 example_pool
             create_context) = 201 \<and>
   body (CreateOrder_handler real_of_int (wired\<lparr>cartClient := None\<rparr>) net_404 example_pool
             create_context) = OrderJSON example_order"
proof -
  let ?client = "\<lparr>baseURL_cart = ''http://cart:8080''\<rparr>"
  let ?H = "CreateOrder_handler real_of_int wired net_timeout example_pool create_context"
  let ?H2 = "CreateOrder_handler real_of_int (wired\<lparr>cartClient := None\<rparr>) net_404 example_pool
               create_context"
  have cc: "cartClient wired = Some ?client" by (simp add: wired_def)
  have cl: "ClearCart ?client net_timeout (GetHeader create_context ''Authorization'') =
              Some (Wrapped ''request cart service'' (ErrorString ''context deadline exceeded''))"
    by (simp add: ClearCart_def net_timeout_def)
  have ok: "fst (CreateOrder real_of_int example_pool
                  ((example_request\<lparr>UserID_req := ''mallory''\<rparr>)
                     \<lparr>UserID_req := GetString create_context ''user_id''\<rparr>)) = Inr example_order"
    using example_run by (simp add: create_context_facts)
  have ne: "GetString create_context ''user_id'' \<noteq> []" by (simp add: create_context_facts)
  have committed: "snd (CreateOrder real_of_int example_pool example_request) =
      example_pool\<lparr>orders := orders example_pool @
                       [order_row_of (orders_id_seq example_pool + 1) (now example_pool)
                          (new_order real_of_int example_request)],
                    order_items := order_items example_pool @
                       map (item_row (orders_id_seq example_pool + 1))
                         (map (enrich_item real_of_int) (Items_req example_request)),
                    orders_id_seq := orders_id_seq example_pool + 1,
                    tx_log := tx_log example_pool @ [TxBegin, TxCommit]\<rparr>"
    by (subst CreateOrder_commits) (simp_all add: example_request_def example_pool_def)
  note t = CreateOrder_handler_cart_best_effort[of real_of_int wired net_timeout example_pool
             create_context "wired\<lparr>cartClient := None\<rparr>" net_404]
  note imp = t[THEN conjunct2, THEN conjunct2, THEN conjunct2, THEN spec, THEN spec, THEN mp]
  have "status ?H = 201 \<and> body ?H = OrderJSON example_order \<and>
        db ?H = snd (CreateOrder real_of_int example_pool
                  ((example_request\<lparr>UserID_req := ''mallory''\<rparr>)
                     \<lparr>UserID_req := GetString create_context ''user_id''\<rparr>)) \<and>
        (\<forall>client err.
           cartClient wired = Some client \<and>
           ClearCart client net_timeout (GetHeader create_context ''Authorization'') = Some err \<longrightarrow>
             logs ?H = [''Order created'', ''Best-effort cart clear failed''])"
    by (rule imp) (intro conjI create_context_facts(1) ne ok)
  with cc cl
  have a: "status ?H = 201" "body ?H = OrderJSON example_order"
          "logs ?H = [''Order created'', ''Best-effort cart clear failed'']"
          "db ?H = snd (CreateOrder real_of_int example_pool example_request)"
    by (auto simp: create_context_facts)
  from t have "status ?H2 = status ?H" "body ?H2 = body ?H" by simp_all
  with a(1,2) have b: "status ?H2 = 201" "body ?H2 = OrderJSON example_order" by simp_all
  from a(4) committed have c: "tx_log (db ?H) = [TxBegin, TxCommit]" "map id_col (orders (db ?H)) = [1]"
    by (simp_all add: example_pool_def order_row_of_def)
  from a b c show ?thesis by simp
qed


text \<open>
  C8, as amended. \<open>CreateOrder\<close> checks neither quantity nor price: the order it
  returns has the quantities and prices of the request. When every requested item
  has a quantity above 0 and a price of at least 0, so has every returned item, and
  every item subtotal and the order subtotal are at least 0; this for any arithmetic
  in which a non-negative amount times a positive quantity and the sum of two
  non-negative amounts are non-negative.
\<close>

theorem CreateOrder_nonnegative:
  fixes conv :: "int \<Rightarrow> 'f::{plus,times,ord}"
  assumes ok: "fst (CreateOrder conv p req) = Inr ord"
      and pos: "\<forall>it \<in> set (Items_req req). 0 < Quantity it \<and> conv 0 \<le> Price it"
      and zero: "conv 0 \<le> conv 0"
      and mul: "\<And>x n. conv 0 \<le> x \<Longrightarrow> 0 < n \<Longrightarrow> conv 0 \<le> x * conv n"
      and add: "\<And>x y. conv 0 \<le> x \<Longrightarrow> conv 0 \<le> y \<Longrightarrow> conv 0 \<le> x + y"
  shows "map Quantity (Items ord) = map Quantity (Items_req req) \<and>
         map Price (Items ord) = map Price (Items_req req) \<and>
         (\<forall>it \<in> set (Items ord).
            0 < Quantity it \<and> conv 0 \<le> Price it \<and> conv 0 \<le> Subtotal_item it) \<and>
         conv 0 \<le> Subtotal ord"
proof -
  from CreateOrder_result[OF ok] obtain i
    where o: "ord = (new_order conv req)\<lparr>ID := i\<rparr>" by blast
  have items: "Items ord = map (enrich_item conv) (Items_req req)"
    by (simp add: o new_order_def)
  have sub: "Subtotal ord = foldl (+) (conv 0) (item_subtotals conv (Items_req req))"
    by (simp add: o new_order_def)
  have each: "\<forall>x \<in> set (item_subtotals conv (Items_req req)). conv 0 \<le> x"
    using pos mul by (auto simp: item_subtotals_def)
  have "conv 0 \<le> Subtotal ord"
    unfolding sub using add zero each by (rule foldl_nonnegative)
  moreover have "\<forall>it \<in> set (Items ord).
            0 < Quantity it \<and> conv 0 \<le> Price it \<and> conv 0 \<le> Subtotal_item it"
    using pos mul by (auto simp: items enrich_item_def)
  moreover have "map Quantity (Items ord) = map Quantity (Items_req req)"
    "map Price (Items ord) = map Price (Items_req req)"
    by (simp_all add: items enrich_item_def comp_def)
  ultimately show ?thesis by simp
qed

theorem CreateOrder_nonnegative_witness:
  "fst (CreateOrder real_of_int example_pool example_request) = Inr example_order \<and>
   map Quantity (Items example_order) = [2, 1] \<and>
   map Price (Items example_order) = [10, 5] \<and>
   list_all (\<lambda>it. 0 < Quantity it \<and> 0 \<le> Price it \<and> 0 \<le> Subtotal_item it) (Items example_order) \<and>
   0 \<le> Subtotal example_order"
proof -
  have pos: "\<forall>it \<in> set (Items_req example_request). 0 < Quantity it \<and> real_of_int 0 \<le> Price it"
    by (simp add: example_request_def)
  have mul: "\<And>(x::real) n. real_of_int 0 \<le> x \<Longrightarrow> 0 < n \<Longrightarrow> real_of_int 0 \<le> x * real_of_int n"
    by simp
  have add: "\<And>x y::real. real_of_int 0 \<le> x \<Longrightarrow> real_of_int 0 \<le> y \<Longrightarrow> real_of_int 0 \<le> x + y"
    by simp
  from CreateOrder_nonnegative[OF example_run pos _ mul add]
  have "map Quantity (Items example_order) = [2, 1] \<and>
        map Price (Items example_order) = [10, 5] \<and>
        list_all (\<lambda>it. 0 < Quantity it \<and> 0 \<le> Price it \<and> 0 \<le> Subtotal_item it) (Items example_order) \<and>
        0 \<le> Subtotal example_order"
    by (simp add: example_request_def list_all_iff)
  with example_run show ?thesis by simp
qed


text \<open>
  C8 as stated fails: a request with quantity -1 and with price -2 is accepted, and
  the order has negative item subtotals and a negative subtotal.
\<close>

theorem CreateOrder_nonnegative_counterexample:
  "fst (CreateOrder real_of_int example_pool negative_request) = Inr negative_order \<and>
   map Quantity (Items negative_order) = [- 1, 1] \<and>
   map Price (Items negative_order) = [10, - 2] \<and>
   map Subtotal_item (Items negative_order) = [- 10, - 2] \<and>
   Subtotal negative_order = - 12 \<and>
   \<not> 0 < Quantity (Items negative_order ! 0) \<and>
   \<not> 0 \<le> Price (Items negative_order ! 1) \<and>
   \<not> 0 \<le> Subtotal_item (Items negative_order ! 0) \<and>
   \<not> 0 \<le> Subtotal negative_order"
  by (simp add: run_defs example_pool_def negative_request_def negative_order_def)


end
